theory Spec2Isabelle
  imports Complex_Main "HOL-Library.Word"
begin

section \<open>Numbers, vectors and faults\<close>

text \<open>
  The program is \<^verbatim>\<open>src/MPC.cpp\<close>. Its \<^verbatim>\<open>size_t\<close> values are 64-bit words, so that
  \<^verbatim>\<open>N - 1\<close> and \<^verbatim>\<open>N - 2\<close> wrap around as they do in C++. Its \<^verbatim>\<open>double\<close> and
  \<^verbatim>\<open>AD<double>\<close> values are real numbers and \<^verbatim>\<open>M_PI\<close> is \<open>pi\<close>: rounding is abstracted, so
  the theorems below are about which terms are computed from which vector entries, not about
  the last bit of a sum.

  A vector (\<^verbatim>\<open>CPPAD_TESTVECTOR\<close>, \<^verbatim>\<open>Eigen::VectorXd\<close>) is a list. An index beyond the
  end of a vector is undefined behaviour in C++ (an assertion failure in a debug build); the
  model makes it a fault value naming the vector and the index, and stops there.
\<close>

type_synonym size_t = "64 word"

datatype vec =
    fg_vec | vars_vec | coeffs_vec | state_vec
  | vars_lowerbound_vec | vars_upperbound_vec
  | constraints_lowerbound_vec | constraints_upperbound_vec
  | solution_x_vec

datatype fault = Out_of_range vec nat

definition rd :: "vec \<Rightarrow> 'a list \<Rightarrow> size_t \<Rightarrow> fault + 'a" where
  "rd v xs i = (if unat i < length xs then Inr (xs ! unat i) else Inl (Out_of_range v (unat i)))"

definition wr :: "vec \<Rightarrow> 'a list \<Rightarrow> size_t \<Rightarrow> 'a \<Rightarrow> fault + 'a list" where
  "wr v xs i a = (if unat i < length xs then Inr (xs[unat i := a]) else Inl (Out_of_range v (unat i)))"

definition and_then :: "fault + 'a \<Rightarrow> ('a \<Rightarrow> fault + 'b) \<Rightarrow> fault + 'b" where
  "and_then m f = (case m of Inl e \<Rightarrow> Inl e | Inr a \<Rightarrow> f a)"

text \<open>
  \<^verbatim>\<open>for (size_t t = t0; t < bound; ++t) body\<close>: the counter is a word, the loop stops at the
  first fault of its body.
\<close>

function for_loop :: "size_t \<Rightarrow> size_t \<Rightarrow> (size_t \<Rightarrow> 's \<Rightarrow> fault + 's) \<Rightarrow> 's \<Rightarrow> fault + 's" where
  "for_loop t bound body s =
     (if t < bound
      then (case body t s of Inl e \<Rightarrow> Inl e | Inr s' \<Rightarrow> for_loop (t + 1) bound body s')
      else Inr s)"
  by pat_completeness auto

termination
proof (relation "measure (\<lambda>(t, bound, body, s). unat bound - unat t)")
  show "wf (measure (\<lambda>(t :: size_t, bound :: size_t, body :: size_t \<Rightarrow> 's \<Rightarrow> fault + 's, s). unat bound - unat t))"
    by simp
next
  fix t bound :: size_t and body :: "size_t \<Rightarrow> 's \<Rightarrow> fault + 's" and s s' :: 's
  assume lt: "t < bound"
  have "unat bound < 2 ^ 64"
    using unsigned_less [of bound, where 'a = nat] by simp
  with lt have "unat t + unat (1 :: size_t) < 2 ^ LENGTH(64)"
    by (simp add: word_less_nat_alt)
  then have "unat (t + 1) = unat t + unat (1 :: size_t)"
    by (simp only: unat_add_lem)
  with lt show "((t + 1, bound, body, s'), (t, bound, body, s))
      \<in> measure (\<lambda>(t, bound, body, s). unat bound - unat t)"
    by (simp add: word_less_nat_alt)
qed

declare for_loop.simps [simp del]

section \<open>Configuration (lines 16 to 41)\<close>

text \<open>
  The horizon length \<^verbatim>\<open>N\<close> is a global of the source, set to 10; the offsets are computed
  from it once, at static initialisation. Here every definition that depends on the horizon
  takes it as its first argument, and \<open>N_configured\<close> is the value of the source.
\<close>

definition N_configured :: size_t where "N_configured = 10"
definition dt :: real where "dt = 0.1"
definition Lf :: real where "Lf = 2.67"

definition ref_cte :: real where "ref_cte = 0"
definition ref_epsi :: real where "ref_epsi = 0"
definition ref_v :: real where "ref_v = 130"

definition x_start :: "size_t \<Rightarrow> size_t" where "x_start N = 0"
definition y_start :: "size_t \<Rightarrow> size_t" where "y_start N = x_start N + N"
definition psi_start :: "size_t \<Rightarrow> size_t" where "psi_start N = y_start N + N"
definition v_start :: "size_t \<Rightarrow> size_t" where "v_start N = psi_start N + N"
definition cte_start :: "size_t \<Rightarrow> size_t" where "cte_start N = v_start N + N"
definition epsi_start :: "size_t \<Rightarrow> size_t" where "epsi_start N = cte_start N + N"
definition delta_start :: "size_t \<Rightarrow> size_t" where "delta_start N = epsi_start N + N"
definition a_start :: "size_t \<Rightarrow> size_t" where "a_start N = delta_start N + N - 1"

section \<open>The cost and constraint evaluator \<^verbatim>\<open>FG_eval::operator()\<close> (lines 50 to 153)\<close>

definition cte_w :: real where "cte_w = 1500"
definition epsi_w :: real where "epsi_w = 2000"
definition v_w :: real where "v_w = 1"
definition actuator_w :: real where "actuator_w = 10"
definition change_steer_w :: real where "change_steer_w = 1000"
definition change_accel_w :: real where "change_accel_w = 10"

text \<open>\<^verbatim>\<open>fg[0] += e\<close>\<close>

definition fg0_add :: "real list \<Rightarrow> real \<Rightarrow> fault + real list" where
  "fg0_add fg e = and_then (rd fg_vec fg 0) (\<lambda>c. wr fg_vec fg 0 (c + e))"

text \<open>The body of the loop of lines 70 to 75 (reference state cost).\<close>

definition reference_cost_step :: "size_t \<Rightarrow> real list \<Rightarrow> size_t \<Rightarrow> real list \<Rightarrow> fault + real list" where
  "reference_cost_step N vars t fg =
     and_then (rd vars_vec vars (cte_start N + t)) (\<lambda>cte.
     and_then (fg0_add fg (cte_w * (cte - ref_cte) ^ 2)) (\<lambda>fg.
     and_then (rd vars_vec vars (epsi_start N + t)) (\<lambda>epsi.
     and_then (fg0_add fg (epsi_w * (epsi - ref_epsi) ^ 2)) (\<lambda>fg.
     and_then (rd vars_vec vars (v_start N + t)) (\<lambda>v.
     fg0_add fg (v_w * (v - ref_v) ^ 2))))))"

text \<open>The body of the loop of lines 80 to 83 (use of the actuators).\<close>

definition actuator_cost_step :: "size_t \<Rightarrow> real list \<Rightarrow> size_t \<Rightarrow> real list \<Rightarrow> fault + real list" where
  "actuator_cost_step N vars t fg =
     and_then (rd vars_vec vars (delta_start N + t)) (\<lambda>delta.
     and_then (fg0_add fg (actuator_w * delta ^ 2)) (\<lambda>fg.
     and_then (rd vars_vec vars (a_start N + t)) (\<lambda>a.
     fg0_add fg (actuator_w * a ^ 2))))"

text \<open>The body of the loop of lines 88 to 91 (gap between sequential actuations).\<close>

definition change_cost_step :: "size_t \<Rightarrow> real list \<Rightarrow> size_t \<Rightarrow> real list \<Rightarrow> fault + real list" where
  "change_cost_step N vars t fg =
     and_then (rd vars_vec vars (delta_start N + t + 1)) (\<lambda>delta1.
     and_then (rd vars_vec vars (delta_start N + t)) (\<lambda>delta0.
     and_then (fg0_add fg (change_steer_w * (delta1 - delta0) ^ 2)) (\<lambda>fg.
     and_then (rd vars_vec vars (a_start N + t + 1)) (\<lambda>a1.
     and_then (rd vars_vec vars (a_start N + t)) (\<lambda>a0.
     fg0_add fg (change_accel_w * (a1 - a0) ^ 2))))))"

text \<open>The three cost loops, each with the bound the source gives it.\<close>

definition reference_cost :: "size_t \<Rightarrow> real list \<Rightarrow> real list \<Rightarrow> fault + real list" where
  "reference_cost N vars fg = for_loop 0 N (reference_cost_step N vars) fg"

definition actuator_cost :: "size_t \<Rightarrow> real list \<Rightarrow> real list \<Rightarrow> fault + real list" where
  "actuator_cost N vars fg = for_loop 0 (N - 1) (actuator_cost_step N vars) fg"

definition change_cost :: "size_t \<Rightarrow> real list \<Rightarrow> real list \<Rightarrow> fault + real list" where
  "change_cost N vars fg = for_loop 0 (N - 2) (change_cost_step N vars) fg"

text \<open>Lines 100 to 105: \<^verbatim>\<open>fg[1 + x_start] = vars[x_start]\<close> and its five siblings.\<close>

definition copy_var :: "size_t \<Rightarrow> real list \<Rightarrow> real list \<Rightarrow> fault + real list" where
  "copy_var start vars fg = and_then (rd vars_vec vars start) (\<lambda>a. wr fg_vec fg (1 + start) a)"

definition initial_constraints :: "size_t \<Rightarrow> real list \<Rightarrow> real list \<Rightarrow> fault + real list" where
  "initial_constraints N vars fg =
     and_then (copy_var (x_start N) vars fg) (\<lambda>fg.
     and_then (copy_var (y_start N) vars fg) (\<lambda>fg.
     and_then (copy_var (psi_start N) vars fg) (\<lambda>fg.
     and_then (copy_var (v_start N) vars fg) (\<lambda>fg.
     and_then (copy_var (cte_start N) vars fg) (\<lambda>fg.
     copy_var (epsi_start N) vars fg)))))"

text \<open>The body of the loop of lines 108 to 152 (the vehicle model).\<close>

definition model_step :: "size_t \<Rightarrow> real list \<Rightarrow> real list \<Rightarrow> size_t \<Rightarrow> real list \<Rightarrow> fault + real list" where
  "model_step N coeffs vars t fg =
     and_then (rd vars_vec vars (x_start N + t - 1)) (\<lambda>x0.
     and_then (rd vars_vec vars (y_start N + t - 1)) (\<lambda>y0.
     and_then (rd vars_vec vars (psi_start N + t - 1)) (\<lambda>psi0.
     and_then (rd vars_vec vars (v_start N + t - 1)) (\<lambda>v0.
     and_then (rd vars_vec vars (cte_start N + t - 1)) (\<lambda>cte0.
     and_then (rd vars_vec vars (epsi_start N + t - 1)) (\<lambda>epsi0.
     and_then (rd vars_vec vars (x_start N + t)) (\<lambda>x1.
     and_then (rd vars_vec vars (y_start N + t)) (\<lambda>y1.
     and_then (rd vars_vec vars (psi_start N + t)) (\<lambda>psi1.
     and_then (rd vars_vec vars (v_start N + t)) (\<lambda>v1.
     and_then (rd vars_vec vars (cte_start N + t)) (\<lambda>cte1.
     and_then (rd vars_vec vars (epsi_start N + t)) (\<lambda>epsi1.
     and_then (rd vars_vec vars (delta_start N + t - 1)) (\<lambda>delta0.
     and_then (rd vars_vec vars (a_start N + t - 1)) (\<lambda>a0.
     and_then (rd coeffs_vec coeffs 0) (\<lambda>c0.
     and_then (rd coeffs_vec coeffs 1) (\<lambda>c1.
     and_then (rd coeffs_vec coeffs 2) (\<lambda>c2.
     and_then (rd coeffs_vec coeffs 3) (\<lambda>c3.
     let f0 = c0 + c1 * x0 + c2 * x0 * x0 + c3 * x0 * x0 * x0;
         psides0 = arctan (c1 + 2 * c2 * x0 + 3 * c3 * x0 * x0)
     in
     and_then (wr fg_vec fg (1 + x_start N + t) (x1 - (x0 + v0 * cos psi0 * dt))) (\<lambda>fg.
     and_then (wr fg_vec fg (1 + y_start N + t) (y1 - (y0 + v0 * sin psi0 * dt))) (\<lambda>fg.
     and_then (wr fg_vec fg (1 + psi_start N + t) (psi1 - (psi0 - v0 * delta0 / Lf * dt))) (\<lambda>fg.
     and_then (wr fg_vec fg (1 + v_start N + t) (v1 - (v0 + a0 * dt))) (\<lambda>fg.
     and_then (wr fg_vec fg (1 + cte_start N + t) (cte1 - ((f0 - y0) + (v0 * sin epsi0 * dt)))) (\<lambda>fg.
     wr fg_vec fg (1 + epsi_start N + t) (epsi1 - ((psi0 - psides0) - v0 * delta0 / Lf * dt))
     )))))))))))))))))))))))"

definition model_constraints :: "size_t \<Rightarrow> real list \<Rightarrow> real list \<Rightarrow> real list \<Rightarrow> fault + real list" where
  "model_constraints N coeffs vars fg = for_loop 1 N (model_step N coeffs vars) fg"

text \<open>
  The evaluator. \<^verbatim>\<open>fg\<close> is the caller's vector, updated in place in the source and returned
  here; \<^verbatim>\<open>coeffs\<close> is the member the constructor of line 47 copied, unchecked.
\<close>

definition FG_eval :: "size_t \<Rightarrow> real list \<Rightarrow> real list \<Rightarrow> real list \<Rightarrow> fault + real list" where
  "FG_eval N coeffs fg vars =
     and_then (wr fg_vec fg 0 0) (\<lambda>fg.
     and_then (reference_cost N vars fg) (\<lambda>fg.
     and_then (actuator_cost N vars fg) (\<lambda>fg.
     and_then (change_cost N vars fg) (\<lambda>fg.
     and_then (initial_constraints N vars fg) (\<lambda>fg.
     model_constraints N coeffs vars fg)))))"

section \<open>\<^verbatim>\<open>MPC::Solve\<close> (lines 162 to 305)\<close>

text \<open>
  The solver \<^verbatim>\<open>CppAD::ipopt::solve\<close> is not part of the program: it is a parameter, a
  function from the problem handed to it to the \<^verbatim>\<open>solve_result\<close> it fills in. Of that
  result the source reads \<^verbatim>\<open>status\<close>, \<^verbatim>\<open>x\<close> and \<^verbatim>\<open>obj_value\<close>; the status values are
  those of the library's enumeration, of which the source names \<^verbatim>\<open>success\<close> only.
\<close>

datatype status_type =
    not_defined | success | maxiter_exceeded | stop_at_tiny_step | stop_at_acceptable_point
  | local_infeasibility | user_requested_stop | feasible_point_found | diverging_iterates
  | restoration_failure | error_in_step_computation | invalid_number_detected
  | too_few_degrees_of_freedom | internal_error | unknown

record solve_result =
  sol_status :: status_type
  sol_x :: "real list"
  sol_obj_value :: real

text \<open>The arguments of the call of lines 279 to 281; the evaluator object is its \<^verbatim>\<open>coeffs\<close>.\<close>

record nlp =
  nlp_options :: string
  nlp_xi :: "real list"
  nlp_xl :: "real list"
  nlp_xu :: "real list"
  nlp_gl :: "real list"
  nlp_gu :: "real list"
  nlp_fg_eval :: "real list"

definition n_vars :: "size_t \<Rightarrow> size_t" where "n_vars N = N * 6 + (N - 1) * 2"
definition n_constraints :: "size_t \<Rightarrow> size_t" where "n_constraints N = N * 6"

text \<open>
  \<^verbatim>\<open>Dvector v(n)\<close> allocates \<open>n\<close> doubles and does not initialise them: their content is the
  parameter \<open>junk\<close>, over which every theorem quantifies.
\<close>

definition Dvector :: "(nat \<Rightarrow> real) \<Rightarrow> size_t \<Rightarrow> real list" where
  "Dvector junk n = map junk [0..<unat n]"

text \<open>\<^verbatim>\<open>numeric_limits<float>::max()\<close>, which is \<open>(2 - 2\<^sup>-\<^sup>2\<^sup>3) * 2\<^sup>1\<^sup>2\<^sup>7\<close>, and the steering limit.\<close>

definition float_max :: real where "float_max = (2 ^ 24 - 1) * 2 ^ 104"
definition max_degrees :: real where "max_degrees = 25"
definition max_radians :: real where "max_radians = max_degrees * pi / 180"

text \<open>\<^verbatim>\<open>lower[i] = l; upper[i] = u;\<close>, the body of the loops of lines 201 to 231.\<close>

definition set_bounds :: "vec \<Rightarrow> vec \<Rightarrow> real \<Rightarrow> real \<Rightarrow> size_t \<Rightarrow> real list \<times> real list
    \<Rightarrow> fault + real list \<times> real list" where
  "set_bounds vl vu l u i b =
     and_then (wr vl (fst b) i l) (\<lambda>lower.
     and_then (wr vu (snd b) i u) (\<lambda>upper. Inr (lower, upper)))"

definition solver_options :: string where
  "solver_options =
     ''Integer print_level  0'' @ [CHR 0x0A] @
     ''Sparse  true        forward'' @ [CHR 0x0A] @
     ''Sparse  true        reverse'' @ [CHR 0x0A] @
     ''Numeric max_cpu_time          0.5'' @ [CHR 0x0A]"

text \<open>Lines 199 to 222: the bounds of the variables.\<close>

definition variable_bounds :: "size_t \<Rightarrow> (nat \<Rightarrow> real) \<Rightarrow> fault + real list \<times> real list" where
  "variable_bounds N junk =
     and_then (for_loop 0 (delta_start N)
        (set_bounds vars_lowerbound_vec vars_upperbound_vec (- float_max) float_max)
        (Dvector junk (n_vars N), Dvector junk (n_vars N))) (\<lambda>b.
     and_then (for_loop (delta_start N) (a_start N)
        (set_bounds vars_lowerbound_vec vars_upperbound_vec (- max_radians) max_radians) b) (\<lambda>b.
     for_loop (a_start N) (n_vars N)
        (set_bounds vars_lowerbound_vec vars_upperbound_vec (- 1) 1) b))"

text \<open>Lines 225 to 246: the bounds of the constraints.\<close>

definition constraint_bounds :: "size_t \<Rightarrow> (nat \<Rightarrow> real) \<Rightarrow> real \<Rightarrow> real \<Rightarrow> real \<Rightarrow> real \<Rightarrow> real \<Rightarrow> real
    \<Rightarrow> fault + real list \<times> real list" where
  "constraint_bounds N junk x y psi v cte epsi =
     and_then (for_loop 0 (n_constraints N)
        (set_bounds constraints_lowerbound_vec constraints_upperbound_vec 0 0)
        (Dvector junk (n_constraints N), Dvector junk (n_constraints N))) (\<lambda>b.
     and_then (wr constraints_lowerbound_vec (fst b) (x_start N) x) (\<lambda>lower.
     and_then (wr constraints_lowerbound_vec lower (y_start N) y) (\<lambda>lower.
     and_then (wr constraints_lowerbound_vec lower (psi_start N) psi) (\<lambda>lower.
     and_then (wr constraints_lowerbound_vec lower (v_start N) v) (\<lambda>lower.
     and_then (wr constraints_lowerbound_vec lower (cte_start N) cte) (\<lambda>lower.
     and_then (wr constraints_lowerbound_vec lower (epsi_start N) epsi) (\<lambda>lower.
     and_then (wr constraints_upperbound_vec (snd b) (x_start N) x) (\<lambda>upper.
     and_then (wr constraints_upperbound_vec upper (y_start N) y) (\<lambda>upper.
     and_then (wr constraints_upperbound_vec upper (psi_start N) psi) (\<lambda>upper.
     and_then (wr constraints_upperbound_vec upper (v_start N) v) (\<lambda>upper.
     and_then (wr constraints_upperbound_vec upper (cte_start N) cte) (\<lambda>upper.
     and_then (wr constraints_upperbound_vec upper (epsi_start N) epsi) (\<lambda>upper.
     Inr (lower, upper))))))))))))))"

text \<open>Lines 185 to 188: the initial value of every variable is 0.\<close>

definition initial_vars :: "size_t \<Rightarrow> (nat \<Rightarrow> real) \<Rightarrow> fault + real list" where
  "initial_vars N junk =
     for_loop 0 (n_vars N) (\<lambda>i vars. wr vars_vec vars i 0) (Dvector junk (n_vars N))"

text \<open>Everything \<^verbatim>\<open>Solve\<close> does before it calls the solver, in the order of the source.\<close>

definition Solve_problem :: "size_t \<Rightarrow> (nat \<Rightarrow> real) \<Rightarrow> real list \<Rightarrow> real list \<Rightarrow> fault + nlp" where
  "Solve_problem N junk state coeffs =
     and_then (rd state_vec state 0) (\<lambda>x.
     and_then (rd state_vec state 1) (\<lambda>y.
     and_then (rd state_vec state 2) (\<lambda>psi.
     and_then (rd state_vec state 3) (\<lambda>v.
     and_then (rd state_vec state 4) (\<lambda>cte.
     and_then (rd state_vec state 5) (\<lambda>epsi.
     and_then (initial_vars N junk) (\<lambda>vars.
     and_then (variable_bounds N junk) (\<lambda>b.
     and_then (constraint_bounds N junk x y psi v cte epsi) (\<lambda>g.
     Inr \<lparr> nlp_options = solver_options, nlp_xi = vars,
           nlp_xl = fst b, nlp_xu = snd b, nlp_gl = fst g, nlp_gu = snd g,
           nlp_fg_eval = coeffs \<rparr>)))))))))"

text \<open>
  Lines 294 to 302: the actuations at the first step, then the predicted positions.
\<close>

definition push_xy :: "size_t \<Rightarrow> real list \<Rightarrow> size_t \<Rightarrow> real list \<Rightarrow> fault + real list" where
  "push_xy N sx i result =
     and_then (rd solution_x_vec sx (x_start N + i + 1)) (\<lambda>px.
     and_then (rd solution_x_vec sx (y_start N + i + 1)) (\<lambda>py.
     Inr (result @ [px] @ [py])))"

definition extract_result :: "size_t \<Rightarrow> real list \<Rightarrow> fault + real list" where
  "extract_result N sx =
     and_then (rd solution_x_vec sx (delta_start N)) (\<lambda>delta.
     and_then (rd solution_x_vec sx (a_start N)) (\<lambda>a.
     for_loop 0 (N - 1) (push_xy N sx) ([] @ [delta] @ [a])))"

text \<open>
  What a call of \<^verbatim>\<open>Solve\<close> gives its caller: the returned vector, and the cost written to the
  standard output (line 288).
\<close>

record solve_output =
  result :: "real list"
  printed_cost :: real

definition Solve :: "size_t \<Rightarrow> (nat \<Rightarrow> real) \<Rightarrow> (nlp \<Rightarrow> solve_result) \<Rightarrow> real list \<Rightarrow> real list
    \<Rightarrow> fault + solve_output" where
  "Solve N junk solver state coeffs =
     and_then (Solve_problem N junk state coeffs) (\<lambda>problem.
     let solution = solver problem;
         ok = (True \<and> sol_status solution = success);
         cost = sol_obj_value solution
     in and_then (extract_result N (sol_x solution)) (\<lambda>r.
        Inr \<lparr> result = r, printed_cost = cost \<rparr>))"

section \<open>The layout and the path in the words of the specification\<close>

text \<open>
  The specification lays the decision variables out as six blocks of length \<open>N\<close> for
  \<open>x\<close>, \<open>y\<close>, \<open>psi\<close>, \<open>v\<close>, \<open>cte\<close>, \<open>epsi\<close>, followed by two blocks of length
  \<open>N - 1\<close> for \<open>delta\<close> and \<open>a\<close>. These read entry \<open>t\<close> of each block, by position.
\<close>

definition x_at :: "size_t \<Rightarrow> real list \<Rightarrow> nat \<Rightarrow> real" where
  "x_at N vars t = vars ! t"
definition y_at :: "size_t \<Rightarrow> real list \<Rightarrow> nat \<Rightarrow> real" where
  "y_at N vars t = vars ! (unat N + t)"
definition psi_at :: "size_t \<Rightarrow> real list \<Rightarrow> nat \<Rightarrow> real" where
  "psi_at N vars t = vars ! (2 * unat N + t)"
definition v_at :: "size_t \<Rightarrow> real list \<Rightarrow> nat \<Rightarrow> real" where
  "v_at N vars t = vars ! (3 * unat N + t)"
definition cte_at :: "size_t \<Rightarrow> real list \<Rightarrow> nat \<Rightarrow> real" where
  "cte_at N vars t = vars ! (4 * unat N + t)"
definition epsi_at :: "size_t \<Rightarrow> real list \<Rightarrow> nat \<Rightarrow> real" where
  "epsi_at N vars t = vars ! (5 * unat N + t)"
definition delta_at :: "size_t \<Rightarrow> real list \<Rightarrow> nat \<Rightarrow> real" where
  "delta_at N vars t = vars ! (6 * unat N + t)"
definition a_at :: "size_t \<Rightarrow> real list \<Rightarrow> nat \<Rightarrow> real" where
  "a_at N vars t = vars ! (6 * unat N + (unat N - 1) + t)"

text \<open>
  The path polynomial, coefficients from the constant to the highest term, and its slope.
\<close>

definition path_poly :: "real list \<Rightarrow> real \<Rightarrow> real" where
  "path_poly cs x = (\<Sum>i<length cs. cs ! i * x ^ i)"

definition path_slope :: "real list \<Rightarrow> real \<Rightarrow> real" where
  "path_slope cs x = (\<Sum>i<length cs. of_nat i * cs ! i * x ^ (i - 1))"

text \<open>
  The vehicle model of the specification: the value it gives each state variable at step
  \<open>t\<close>, from the variables of step \<open>t - 1\<close>.
\<close>

definition model_x :: "size_t \<Rightarrow> real list \<Rightarrow> nat \<Rightarrow> real" where
  "model_x N vars t = x_at N vars (t - 1) + v_at N vars (t - 1) * cos (psi_at N vars (t - 1)) * dt"

definition model_y :: "size_t \<Rightarrow> real list \<Rightarrow> nat \<Rightarrow> real" where
  "model_y N vars t = y_at N vars (t - 1) + v_at N vars (t - 1) * sin (psi_at N vars (t - 1)) * dt"

definition model_psi :: "size_t \<Rightarrow> real list \<Rightarrow> nat \<Rightarrow> real" where
  "model_psi N vars t = psi_at N vars (t - 1) - v_at N vars (t - 1) / Lf * delta_at N vars (t - 1) * dt"

definition model_v :: "size_t \<Rightarrow> real list \<Rightarrow> nat \<Rightarrow> real" where
  "model_v N vars t = v_at N vars (t - 1) + a_at N vars (t - 1) * dt"

definition model_cte :: "size_t \<Rightarrow> real list \<Rightarrow> real list \<Rightarrow> nat \<Rightarrow> real" where
  "model_cte N coeffs vars t =
     (path_poly coeffs (x_at N vars (t - 1)) - y_at N vars (t - 1))
       + v_at N vars (t - 1) * sin (epsi_at N vars (t - 1)) * dt"

definition model_epsi :: "size_t \<Rightarrow> real list \<Rightarrow> real list \<Rightarrow> nat \<Rightarrow> real" where
  "model_epsi N coeffs vars t =
     (psi_at N vars (t - 1) - arctan (path_slope coeffs (x_at N vars (t - 1))))
       - v_at N vars (t - 1) * delta_at N vars (t - 1) / Lf * dt"

text \<open>The six residuals \<open>next - model\<close> of step \<open>t\<close>, numbered in the order of the blocks.\<close>

definition residual :: "size_t \<Rightarrow> real list \<Rightarrow> real list \<Rightarrow> nat \<Rightarrow> nat \<Rightarrow> real" where
  "residual N coeffs vars k t =
     (if k = 0 then x_at N vars t - model_x N vars t
      else if k = 1 then y_at N vars t - model_y N vars t
      else if k = 2 then psi_at N vars t - model_psi N vars t
      else if k = 3 then v_at N vars t - model_v N vars t
      else if k = 4 then cte_at N vars t - model_cte N coeffs vars t
      else epsi_at N vars t - model_epsi N coeffs vars t)"

text \<open>The three kinds of cost term of the specification, at step \<open>t\<close>.\<close>

definition tracking_term :: "size_t \<Rightarrow> real list \<Rightarrow> nat \<Rightarrow> real" where
  "tracking_term N vars t =
     1500 * (cte_at N vars t - 0) ^ 2 + 2000 * (epsi_at N vars t - 0) ^ 2
       + 1 * (v_at N vars t - ref_v) ^ 2"

definition actuation_term :: "size_t \<Rightarrow> real list \<Rightarrow> nat \<Rightarrow> real" where
  "actuation_term N vars t = 10 * delta_at N vars t ^ 2 + 10 * a_at N vars t ^ 2"

definition smoothness_term :: "size_t \<Rightarrow> real list \<Rightarrow> nat \<Rightarrow> real" where
  "smoothness_term N vars t =
     1000 * (delta_at N vars (t + 1) - delta_at N vars t) ^ 2
       + 10 * (a_at N vars (t + 1) - a_at N vars t) ^ 2"

text \<open>
  A horizon the program is meant for: at least two steps, and few enough that the sizes
  \<^verbatim>\<open>N * 6 + (N - 1) * 2\<close> and \<^verbatim>\<open>N * 6\<close> do not wrap around.
\<close>

definition horizon_ok :: "size_t \<Rightarrow> bool" where
  "horizon_ok N = (2 \<le> unat N \<and> unat N < 2 ^ 60)"

section \<open>Loops as lists of steps\<close>

text \<open>The iterations of a loop, one after the other, for the counter values of a list.\<close>

fun steps :: "(size_t \<Rightarrow> 's \<Rightarrow> fault + 's) \<Rightarrow> nat list \<Rightarrow> 's \<Rightarrow> fault + 's" where
  "steps body [] s = Inr s"
| "steps body (t # ts) s =
     (case body (of_nat t) s of Inl e \<Rightarrow> Inl e | Inr s' \<Rightarrow> steps body ts s')"

text \<open>Six entries of \<^verbatim>\<open>fg\<close> written at step \<open>t\<close>, one in each block of constraints.\<close>

definition six_writes :: "nat \<Rightarrow> (nat \<Rightarrow> nat \<Rightarrow> real) \<Rightarrow> nat \<Rightarrow> real list \<Rightarrow> real list" where
  "six_writes n w t fg =
     fg[1 + t := w 0 t, 1 + n + t := w 1 t, 1 + 2 * n + t := w 2 t,
        1 + 3 * n + t := w 3 t, 1 + 4 * n + t := w 4 t, 1 + 5 * n + t := w 5 t]"

text \<open>The entries of the variables that the constraints of step 0 copy, by block.\<close>

definition first_values :: "size_t \<Rightarrow> real list \<Rightarrow> nat \<Rightarrow> nat \<Rightarrow> real" where
  "first_values N vars k t = vars ! (k * unat N + t)"

text \<open>The cost of the specification: the sum of its three kinds of term.\<close>

definition total_cost :: "size_t \<Rightarrow> real list \<Rightarrow> real" where
  "total_cost N vars =
     (\<Sum>t<unat N. tracking_term N vars t) + (\<Sum>t<unat N - 1. actuation_term N vars t)
       + (\<Sum>t<unat N - 2. smoothness_term N vars t)"

text \<open>The entries \<open>m\<close> to \<open>k - 1\<close> of a vector set to one value.\<close>

definition fill :: "nat \<Rightarrow> nat \<Rightarrow> 'a \<Rightarrow> 'a list \<Rightarrow> 'a list" where
  "fill m k a xs = fold (\<lambda>i ys. ys[i := a]) [m..<k] xs"

text \<open>
  A solver for the examples: it stops at once, reports that it ran out of iterations, and
  leaves the initial point in \<^verbatim>\<open>x\<close>.
\<close>

definition gives_up :: "nlp \<Rightarrow> solve_result" where
  "gives_up p = \<lparr> sol_status = maxiter_exceeded, sol_x = nlp_xi p, sol_obj_value = 0 \<rparr>"

section \<open>Sequencing, reads and writes in range\<close>


lemma and_then_Inr [simp]: "and_then (Inr a) f = f a"
  by (simp add: and_then_def)

lemma and_then_Inl [simp]: "and_then (Inl e) f = Inl e"
  by (simp add: and_then_def)

lemma rd_in: "unat i < length xs \<Longrightarrow> rd v xs i = Inr (xs ! unat i)"
  by (simp add: rd_def)

lemma rd_out: "length xs \<le> unat i \<Longrightarrow> rd v xs i = Inl (Out_of_range v (unat i))"
  by (simp add: rd_def)

lemma wr_in: "unat i < length xs \<Longrightarrow> wr v xs i a = Inr (xs[unat i := a])"
  by (simp add: wr_def)

lemma word_succ_unat: "(t :: size_t) < bound \<Longrightarrow> unat (t + 1) = Suc (unat t)"
proof -
  assume lt: "t < bound"
  have "unat bound < 2 ^ 64"
    using unsigned_less [of bound, where 'a = nat] by simp
  with lt have "unat t + unat (1 :: size_t) < 2 ^ LENGTH(64)"
    by (simp add: word_less_nat_alt)
  then have "unat (t + 1) = unat t + unat (1 :: size_t)"
    by (simp only: unat_add_lem)
  then show ?thesis by simp
qed

lemma for_loop_steps: "for_loop t b body s = steps body [unat t..<unat b] s"
proof (induction t b body s rule: for_loop.induct)
  case (1 t bound body s)
  show ?case
  proof (cases "t < bound")
    case True
    then have l: "[unat t..<unat bound] = unat t # [unat (t + 1)..<unat bound]"
      by (simp add: word_succ_unat word_less_nat_alt upt_conv_Cons)
    show ?thesis
      using True 1
      by (subst for_loop.simps) (simp add: l split: sum.splits)
  next
    case False
    then have "unat bound \<le> unat t"
      by (simp add: word_less_nat_alt)
    then have e: "[unat t..<unat bound] = []"
      by simp
    show ?thesis
      using False by (subst for_loop.simps) (simp only: e steps.simps if_False)
  qed
qed

lemma steps_pure:
  assumes "\<And>t s. t \<in> set ts \<Longrightarrow> P s \<Longrightarrow> body (of_nat t) s = Inr (g t s) \<and> P (g t s)"
    and "P s"
  shows "steps body ts s = Inr (fold g ts s) \<and> P (fold g ts s)"
  using assms
proof (induction ts arbitrary: s)
  case Nil
  then show ?case by simp
next
  case (Cons t ts)
  from Cons.prems(1) [of t s] Cons.prems(2)
  have b: "body (of_nat t) s = Inr (g t s)" and p: "P (g t s)" by simp_all
  have "steps body ts (g t s) = Inr (fold g ts (g t s)) \<and> P (fold g ts (g t s))"
    by (rule Cons.IH) (use Cons.prems(1) p in auto)
  with b show ?case by simp
qed

subsection \<open>Offsets as natural numbers\<close>

lemma unat_plus_nat: "unat a + t < 2 ^ 64 \<Longrightarrow> unat ((a :: size_t) + of_nat t) = unat a + t"
  by (simp add: unat_word_ariths unat_of_nat)

lemma unat_plus_one: "unat a + 1 < 2 ^ 64 \<Longrightarrow> unat ((a :: size_t) + 1) = unat a + 1"
  by (simp add: unat_word_ariths)

lemma unat_one_plus: "unat a + 1 < 2 ^ 64 \<Longrightarrow> unat (1 + (a :: size_t)) = unat a + 1"
  by (simp add: unat_word_ariths)

lemma unat_minus_one: "1 \<le> unat a \<Longrightarrow> unat ((a :: size_t) - 1) = unat a - 1"
  by (simp add: unat_sub word_le_nat_alt)

lemma unat_minus_two: "2 \<le> unat a \<Longrightarrow> unat ((a :: size_t) - 2) = unat a - 2"
  by (simp add: unat_sub word_le_nat_alt)

lemma offsets:
  assumes "unat (N :: size_t) < 2 ^ 60"
  shows "unat (x_start N) = 0" "unat (y_start N) = unat N" "unat (psi_start N) = 2 * unat N"
    "unat (v_start N) = 3 * unat N" "unat (cte_start N) = 4 * unat N"
    "unat (epsi_start N) = 5 * unat N" "unat (delta_start N) = 6 * unat N"
    "unat (n_constraints N) = 6 * unat N"
  using assms
  by (simp_all add: x_start_def y_start_def psi_start_def v_start_def cte_start_def
      epsi_start_def delta_start_def n_constraints_def unat_word_ariths)

lemma offset_a:
  assumes "unat (N :: size_t) < 2 ^ 60" "1 \<le> unat N"
  shows "unat (a_start N) = 6 * unat N + (unat N - 1)"
proof -
  have "unat (delta_start N + N) = 7 * unat N"
    using assms by (simp add: unat_word_ariths offsets)
  then show ?thesis
    using assms by (simp add: a_start_def unat_minus_one)
qed

lemma size_vars:
  assumes "unat (N :: size_t) < 2 ^ 60" "1 \<le> unat N"
  shows "unat (n_vars N) = 6 * unat N + 2 * (unat N - 1)"
proof -
  have a: "unat (N * 6) = 6 * unat N"
    using assms by (simp add: unat_word_ariths)
  have "unat (N - 1) * unat (2 :: size_t) < 2 ^ LENGTH(64)"
    using assms by (simp add: unat_minus_one)
  then have "unat ((N - 1) * 2) = unat (N - 1) * unat (2 :: size_t)"
    by (simp only: unat_mult_lem)
  then have b: "unat ((N - 1) * 2) = 2 * (unat N - 1)"
    using assms by (simp add: unat_minus_one)
  have "unat (N * 6) + unat ((N - 1) * 2) < 2 ^ LENGTH(64)"
    unfolding a b using assms by simp
  then have "unat (N * 6 + (N - 1) * 2) = unat (N * 6) + unat ((N - 1) * 2)"
    by (simp only: unat_add_lem)
  then show ?thesis
    unfolding n_vars_def a b .
qed


subsection \<open>The steps of the evaluator, on vectors that are long enough\<close>

lemma fg0_add_in: "0 < length fg \<Longrightarrow> fg0_add fg e = Inr (fg[0 := fg ! 0 + e])"
  by (simp add: fg0_add_def rd_in wr_in)

lemma reference_cost_step_in:
  assumes "horizon_ok N" "t < unat N" "length vars = unat (n_vars N)" "0 < length fg"
  shows "reference_cost_step N vars (of_nat t) fg =
    Inr (fg[0 := fg ! 0 + (cte_w * (cte_at N vars t - ref_cte) ^ 2
       + epsi_w * (epsi_at N vars t - ref_epsi) ^ 2 + v_w * (v_at N vars t - ref_v) ^ 2)])"
  using assms
  by (simp add: reference_cost_step_def horizon_ok_def rd_in fg0_add_in unat_plus_nat offsets
      size_vars cte_at_def epsi_at_def v_at_def add.assoc)


lemma length_six_writes [simp]: "length (six_writes n w t fg) = length fg"
  by (simp add: six_writes_def)

lemma length_fold_six_writes [simp]: "length (fold (six_writes n w) ts fg) = length fg"
  by (induction ts arbitrary: fg) simp_all

lemma six_writes_nth0: "six_writes n w t fg ! 0 = fg ! 0"
  by (simp add: six_writes_def)

lemma fold_six_writes_nth0: "fold (six_writes n w) ts fg ! 0 = fg ! 0"
  by (induction ts arbitrary: fg) (simp_all add: six_writes_nth0)

lemma six_writes_nth:
  assumes "t < n" "t' < n" "length fg = 1 + 6 * n"
  shows "six_writes n w t fg ! (1 + t') = (if t' = t then w 0 t else fg ! (1 + t'))"
    "six_writes n w t fg ! (1 + n + t') = (if t' = t then w 1 t else fg ! (1 + n + t'))"
    "six_writes n w t fg ! (1 + 2 * n + t') = (if t' = t then w 2 t else fg ! (1 + 2 * n + t'))"
    "six_writes n w t fg ! (1 + 3 * n + t') = (if t' = t then w 3 t else fg ! (1 + 3 * n + t'))"
    "six_writes n w t fg ! (1 + 4 * n + t') = (if t' = t then w 4 t else fg ! (1 + 4 * n + t'))"
    "six_writes n w t fg ! (1 + 5 * n + t') = (if t' = t then w 5 t else fg ! (1 + 5 * n + t'))"
  using assms by (simp_all add: six_writes_def nth_list_update)

lemma fold_six_writes_nth:
  assumes "\<forall>t\<in>set ts. t < n" "t' < n" "length fg = 1 + 6 * n"
  shows "fold (six_writes n w) ts fg ! (1 + t') = (if t' \<in> set ts then w 0 t' else fg ! (1 + t'))
    \<and> fold (six_writes n w) ts fg ! (1 + n + t') = (if t' \<in> set ts then w 1 t' else fg ! (1 + n + t'))
    \<and> fold (six_writes n w) ts fg ! (1 + 2 * n + t') = (if t' \<in> set ts then w 2 t' else fg ! (1 + 2 * n + t'))
    \<and> fold (six_writes n w) ts fg ! (1 + 3 * n + t') = (if t' \<in> set ts then w 3 t' else fg ! (1 + 3 * n + t'))
    \<and> fold (six_writes n w) ts fg ! (1 + 4 * n + t') = (if t' \<in> set ts then w 4 t' else fg ! (1 + 4 * n + t'))
    \<and> fold (six_writes n w) ts fg ! (1 + 5 * n + t') = (if t' \<in> set ts then w 5 t' else fg ! (1 + 5 * n + t'))"
  using assms
proof (induction ts arbitrary: fg)
  case Nil
  then show ?case by simp
next
  case (Cons t ts)
  have l: "length (six_writes n w t fg) = 1 + 6 * n"
    using Cons.prems by simp
  have t: "t < n" and ts: "\<forall>t\<in>set ts. t < n"
    using Cons.prems by simp_all
  note ih = Cons.IH [OF ts Cons.prems(2) l]
  note here = six_writes_nth [OF t Cons.prems(2) Cons.prems(3), of w]
  have f: "fold (six_writes n w) (t # ts) fg = fold (six_writes n w) ts (six_writes n w t fg)"
    by simp
  show ?case
    unfolding f using ih unfolding here by auto
qed


lemma path_poly4: "length cs = 4 \<Longrightarrow> path_poly cs x = cs ! 0 + cs ! 1 * x + cs ! 2 * x * x + cs ! 3 * x * x * x"
  by (simp add: path_poly_def eval_nat_numeral mult.assoc)

lemma path_slope4: "length cs = 4 \<Longrightarrow> path_slope cs x = cs ! 1 + 2 * cs ! 2 * x + 3 * cs ! 3 * x * x"
  by (simp add: path_slope_def eval_nat_numeral mult.assoc)

lemma path_slope_derivative:
  "(path_poly cs has_real_derivative path_slope cs x) (at x)"
proof -
  have "((\<lambda>x. \<Sum>i<length cs. cs ! i * x ^ i) has_real_derivative
      (\<Sum>i<length cs. of_nat i * cs ! i * x ^ (i - 1))) (at x)"
    by (rule DERIV_sum) (auto intro!: derivative_eq_intros)
  then show ?thesis
    by (simp add: path_poly_def [abs_def] path_slope_def)
qed

lemma rd_coeffs:
  assumes "4 \<le> length coeffs"
  shows "rd coeffs_vec coeffs 0 = Inr (take 4 coeffs ! 0)" "rd coeffs_vec coeffs 1 = Inr (take 4 coeffs ! 1)"
    "rd coeffs_vec coeffs 2 = Inr (take 4 coeffs ! 2)" "rd coeffs_vec coeffs 3 = Inr (take 4 coeffs ! 3)"
  using assms by (auto simp add: rd_def)

lemma model_step_in:
  assumes "horizon_ok N" "1 \<le> t" "t < unat N" "length vars = unat (n_vars N)"
    "length fg = 1 + 6 * unat N" "4 \<le> length coeffs"
  shows "model_step N coeffs vars (of_nat t) fg =
    Inr (six_writes (unat N) (residual N (take 4 coeffs) vars) t fg)"
proof -
  have n: "unat N < 2 ^ 60" "1 \<le> unat N" "2 \<le> unat N"
    using assms(1) by (simp_all add: horizon_ok_def)
  note o = offsets [OF n(1)] offset_a [OF n(1) n(2)]
  have len: "length vars = 6 * unat N + 2 * (unat N - 1)"
    using assms(4) size_vars [OF n(1) n(2)] by simp
  have l4: "length (take 4 coeffs) = 4"
    using assms(6) by simp
  show ?thesis
    using assms(2,3,5) n len
    by (simp add: model_step_def rd_in wr_in rd_coeffs [OF assms(6)] unat_plus_nat unat_one_plus
        unat_minus_one o six_writes_def residual_def model_x_def model_y_def model_psi_def
        model_v_def model_cte_def model_epsi_def path_poly4 [OF l4] path_slope4 [OF l4]
        x_at_def y_at_def psi_at_def v_at_def cte_at_def epsi_at_def delta_at_def a_at_def
        Let_def)
qed

subsection \<open>The cost loops in closed form\<close>

lemma steps_cost:
  assumes "\<And>t fg. t \<in> set ts \<Longrightarrow> 0 < length fg \<Longrightarrow> body (of_nat t) fg = Inr (fg[0 := fg ! 0 + f t])"
    and "0 < length fg"
  shows "steps body ts fg = Inr (fg[0 := fg ! 0 + sum_list (map f ts)])"
  using assms
proof (induction ts arbitrary: fg)
  case Nil
  then show ?case by simp
next
  case (Cons t ts)
  have b: "body (of_nat t) fg = Inr (fg[0 := fg ! 0 + f t])"
    using Cons.prems by simp
  have "steps body ts (fg[0 := fg ! 0 + f t])
      = Inr ((fg[0 := fg ! 0 + f t])[0 := (fg[0 := fg ! 0 + f t]) ! 0 + sum_list (map f ts)])"
    by (rule Cons.IH) (use Cons.prems in auto)
  with b Cons.prems(2) show ?case
    by (simp add: add.assoc)
qed

lemma sum_list_upt: "sum_list (map f [0..<n]) = (\<Sum>t<n. f t)"
  by (simp add: interv_sum_list_conv_sum_set_nat lessThan_atLeast0)

lemma actuator_cost_step_in:
  assumes "horizon_ok N" "t < unat N - 1" "length vars = unat (n_vars N)" "0 < length fg"
  shows "actuator_cost_step N vars (of_nat t) fg = Inr (fg[0 := fg ! 0 + actuation_term N vars t])"
proof -
  have n: "unat N < 2 ^ 60" "1 \<le> unat N" "2 \<le> unat N"
    using assms(1) by (simp_all add: horizon_ok_def)
  note o = offsets [OF n(1)] offset_a [OF n(1) n(2)]
  have len: "length vars = 6 * unat N + 2 * (unat N - 1)"
    using assms(3) size_vars [OF n(1) n(2)] by simp
  show ?thesis
    using assms(2,4) n len
    by (simp add: actuator_cost_step_def rd_in fg0_add_in unat_plus_nat o actuation_term_def
        delta_at_def a_at_def actuator_w_def add.assoc)
qed

lemma unat_plus_nat_one:
  "unat a + t + 1 < 2 ^ 64 \<Longrightarrow> unat ((a :: size_t) + (of_nat t + 1)) = unat a + t + 1"
  by (simp add: unat_word_ariths unat_of_nat)

lemma change_cost_step_in:
  assumes "horizon_ok N" "t < unat N - 2" "length vars = unat (n_vars N)" "0 < length fg"
  shows "change_cost_step N vars (of_nat t) fg = Inr (fg[0 := fg ! 0 + smoothness_term N vars t])"
proof -
  have n: "unat N < 2 ^ 60" "1 \<le> unat N" "2 \<le> unat N"
    using assms(1) by (simp_all add: horizon_ok_def)
  note o = offsets [OF n(1)] offset_a [OF n(1) n(2)]
  have len: "length vars = 6 * unat N + 2 * (unat N - 1)"
    using assms(3) size_vars [OF n(1) n(2)] by simp
  show ?thesis
    using assms(2,4) n len
    by (simp add: change_cost_step_def rd_in fg0_add_in unat_plus_nat unat_plus_nat_one o
        smoothness_term_def delta_at_def a_at_def change_steer_w_def change_accel_w_def add.assoc)
qed

lemma reference_cost_step_in':
  assumes "horizon_ok N" "t < unat N" "length vars = unat (n_vars N)" "0 < length fg"
  shows "reference_cost_step N vars (of_nat t) fg = Inr (fg[0 := fg ! 0 + tracking_term N vars t])"
  using reference_cost_step_in [OF assms]
  by (simp add: tracking_term_def cte_w_def epsi_w_def v_w_def ref_cte_def ref_epsi_def)

lemma reference_cost_in:
  assumes "horizon_ok N" "length vars = unat (n_vars N)" "0 < length fg"
  shows "reference_cost N vars fg = Inr (fg[0 := fg ! 0 + (\<Sum>t<unat N. tracking_term N vars t)])"
proof -
  have "steps (reference_cost_step N vars) [0..<unat N] fg
      = Inr (fg[0 := fg ! 0 + sum_list (map (tracking_term N vars) [0..<unat N])])"
  proof (rule steps_cost)
    fix t and fg' :: "real list"
    assume "t \<in> set [0..<unat N]" "0 < length fg'"
    then show "reference_cost_step N vars (of_nat t) fg' = Inr (fg'[0 := fg' ! 0 + tracking_term N vars t])"
      using reference_cost_step_in' [OF assms(1) _ assms(2)] by simp
  qed (rule assms(3))
  then show ?thesis
    by (simp add: reference_cost_def for_loop_steps sum_list_upt)
qed

lemma actuator_cost_in:
  assumes "horizon_ok N" "length vars = unat (n_vars N)" "0 < length fg"
  shows "actuator_cost N vars fg = Inr (fg[0 := fg ! 0 + (\<Sum>t<unat N - 1. actuation_term N vars t)])"
proof -
  have n: "1 \<le> unat N"
    using assms(1) by (simp add: horizon_ok_def)
  have "steps (actuator_cost_step N vars) [0..<unat N - 1] fg
      = Inr (fg[0 := fg ! 0 + sum_list (map (actuation_term N vars) [0..<unat N - 1])])"
  proof (rule steps_cost)
    fix t and fg' :: "real list"
    assume "t \<in> set [0..<unat N - 1]" "0 < length fg'"
    then show "actuator_cost_step N vars (of_nat t) fg' = Inr (fg'[0 := fg' ! 0 + actuation_term N vars t])"
      using actuator_cost_step_in [OF assms(1) _ assms(2)] by simp
  qed (rule assms(3))
  then show ?thesis
    by (simp add: actuator_cost_def for_loop_steps sum_list_upt unat_minus_one [OF n])
qed

lemma change_cost_in:
  assumes "horizon_ok N" "length vars = unat (n_vars N)" "0 < length fg"
  shows "change_cost N vars fg = Inr (fg[0 := fg ! 0 + (\<Sum>t<unat N - 2. smoothness_term N vars t)])"
proof -
  have n: "2 \<le> unat N"
    using assms(1) by (simp add: horizon_ok_def)
  have "steps (change_cost_step N vars) [0..<unat N - 2] fg
      = Inr (fg[0 := fg ! 0 + sum_list (map (smoothness_term N vars) [0..<unat N - 2])])"
  proof (rule steps_cost)
    fix t and fg' :: "real list"
    assume "t \<in> set [0..<unat N - 2]" "0 < length fg'"
    then show "change_cost_step N vars (of_nat t) fg' = Inr (fg'[0 := fg' ! 0 + smoothness_term N vars t])"
      using change_cost_step_in [OF assms(1) _ assms(2)] by simp
  qed (rule assms(3))
  then show ?thesis
    by (simp add: change_cost_def for_loop_steps sum_list_upt unat_minus_two [OF n])
qed


subsection \<open>The evaluator in closed form\<close>

lemma initial_constraints_in:
  assumes "horizon_ok N" "length vars = unat (n_vars N)" "length fg = 1 + 6 * unat N"
  shows "initial_constraints N vars fg = Inr (six_writes (unat N) (first_values N vars) 0 fg)"
proof -
  have n: "unat N < 2 ^ 60" "1 \<le> unat N" "2 \<le> unat N"
    using assms(1) by (simp_all add: horizon_ok_def)
  note o = offsets [OF n(1)]
  have len: "length vars = 6 * unat N + 2 * (unat N - 1)"
    using assms(2) size_vars [OF n(1) n(2)] by simp
  show ?thesis
    using assms(3) n len
    by (simp add: initial_constraints_def copy_var_def rd_in wr_in unat_one_plus o
        six_writes_def first_values_def)
qed

lemma model_constraints_in:
  assumes "horizon_ok N" "length vars = unat (n_vars N)" "length fg = 1 + 6 * unat N"
    "4 \<le> length coeffs"
  shows "model_constraints N coeffs vars fg =
    Inr (fold (six_writes (unat N) (residual N (take 4 coeffs) vars)) [1..<unat N] fg)"
proof -
  have "steps (model_step N coeffs vars) [1..<unat N] fg =
      Inr (fold (six_writes (unat N) (residual N (take 4 coeffs) vars)) [1..<unat N] fg)
    \<and> length (fold (six_writes (unat N) (residual N (take 4 coeffs) vars)) [1..<unat N] fg)
        = 1 + 6 * unat N"
  proof (rule steps_pure [where P = "\<lambda>fg. length fg = 1 + 6 * unat N"])
    fix t and s :: "real list"
    assume "t \<in> set [1..<unat N]" "length s = 1 + 6 * unat N"
    then show "model_step N coeffs vars (of_nat t) s
        = Inr (six_writes (unat N) (residual N (take 4 coeffs) vars) t s)
      \<and> length (six_writes (unat N) (residual N (take 4 coeffs) vars) t s) = 1 + 6 * unat N"
      using model_step_in [OF assms(1) _ _ assms(2) _ assms(4), of t s] by simp
  qed (rule assms(3))
  then show ?thesis
    by (simp add: model_constraints_def for_loop_steps)
qed

lemma FG_eval_in:
  assumes "horizon_ok N" "length vars = unat (n_vars N)" "length fg = 1 + 6 * unat N"
    "4 \<le> length coeffs"
  shows "FG_eval N coeffs fg vars =
    Inr (fold (six_writes (unat N) (residual N (take 4 coeffs) vars)) [1..<unat N]
          (six_writes (unat N) (first_values N vars) 0 (fg[0 := total_cost N vars])))"
proof -
  have pos: "\<And>c. 0 < length (fg[0 := c])" "\<And>c. length (fg[0 := c]) = 1 + 6 * unat N"
    using assms(3) by simp_all
  note r = reference_cost_in [OF assms(1,2) pos(1)]
  note a = actuator_cost_in [OF assms(1,2) pos(1)]
  note c = change_cost_in [OF assms(1,2) pos(1)]
  note i = initial_constraints_in [OF assms(1,2) pos(2)]
  have l: "\<And>c. length (six_writes (unat N) (first_values N vars) 0 (fg[0 := c])) = 1 + 6 * unat N"
    using assms(3) by simp
  note m = model_constraints_in [OF assms(1,2) l assms(4)]
  show ?thesis
    using assms(3) by (simp add: FG_eval_def wr_in r a c i m total_cost_def add.assoc)
qed


section \<open>The vectors \<^verbatim>\<open>Solve\<close> builds, and what it extracts\<close>

lemma length_fold_update [simp]: "length (fold (\<lambda>i ys. ys[i := a]) ts xs) = length xs"
  by (induction ts arbitrary: xs) simp_all

lemma length_fill [simp]: "length (fill m k a xs) = length xs"
  by (simp add: fill_def)

lemma nth_fold_update:
  "j < length xs \<Longrightarrow> fold (\<lambda>i ys. ys[i := a]) ts xs ! j = (if j \<in> set ts then a else xs ! j)"
  by (induction ts arbitrary: xs) (auto simp add: nth_list_update)

lemma nth_fill: "j < length xs \<Longrightarrow> fill m k a xs ! j = (if m \<le> j \<and> j < k then a else xs ! j)"
  by (simp add: fill_def nth_fold_update)

lemma fold_pair:
  "fold (\<lambda>i b. ((fst b)[i := l], (snd b)[i := u])) ts (xs, ys)
    = (fold (\<lambda>i zs. zs[i := l]) ts xs, fold (\<lambda>i zs. zs[i := u]) ts ys)"
  by (induction ts arbitrary: xs ys) simp_all

lemma set_bounds_in:
  assumes "t < length (fst b)" "t < length (snd b)" "t < 2 ^ 64"
  shows "set_bounds vl vu l u (of_nat t) b = Inr ((fst b)[t := l], (snd b)[t := u])"
  using assms by (simp add: set_bounds_def wr_in unat_of_nat)

lemma bounds_loop:
  assumes "unat k \<le> length xs" "unat k \<le> length ys"
  shows "for_loop m k (set_bounds vl vu l u) (xs, ys)
    = Inr (fill (unat m) (unat k) l xs, fill (unat m) (unat k) u ys)"
proof -
  let ?P = "\<lambda>b :: real list \<times> real list. length (fst b) = length xs \<and> length (snd b) = length ys"
  let ?g = "\<lambda>i (b :: real list \<times> real list). ((fst b)[i := l], (snd b)[i := u])"
  have k: "unat k < 2 ^ 64"
    using unsigned_less [of k, where 'a = nat] by simp
  have "steps (set_bounds vl vu l u) [unat m..<unat k] (xs, ys)
      = Inr (fold ?g [unat m..<unat k] (xs, ys)) \<and> ?P (fold ?g [unat m..<unat k] (xs, ys))"
  proof (rule steps_pure [where P = ?P])
    fix t and s :: "real list \<times> real list"
    assume "t \<in> set [unat m..<unat k]" "?P s"
    then show "set_bounds vl vu l u (of_nat t) s = Inr (?g t s) \<and> ?P (?g t s)"
      using assms k by (simp add: set_bounds_in)
  qed simp
  then show ?thesis
    by (simp add: for_loop_steps fold_pair fill_def)
qed

lemma initial_vars_in: "initial_vars N junk = Inr (replicate (unat (n_vars N)) 0)"
proof -
  let ?n = "unat (n_vars N)"
  let ?P = "\<lambda>xs :: real list. length xs = ?n"
  let ?g = "\<lambda>i (xs :: real list). xs[i := 0]"
  have k: "?n < 2 ^ 64"
    using unsigned_less [of "n_vars N", where 'a = nat] by simp
  have "steps (\<lambda>i vars. wr vars_vec vars i 0) [0..<?n] (Dvector junk (n_vars N))
      = Inr (fold ?g [0..<?n] (Dvector junk (n_vars N)))
     \<and> ?P (fold ?g [0..<?n] (Dvector junk (n_vars N)))"
  proof (rule steps_pure [where P = ?P])
    fix t and s :: "real list"
    assume "t \<in> set [0..<?n]" "?P s"
    then show "wr vars_vec s (of_nat t) 0 = Inr (?g t s) \<and> ?P (?g t s)"
      using k by (simp add: wr_in unat_of_nat)
  qed (simp add: Dvector_def)
  moreover have "fold ?g [0..<?n] (Dvector junk (n_vars N)) = replicate ?n 0"
    by (rule nth_equalityI) (simp_all add: Dvector_def nth_fold_update)
  ultimately show ?thesis
    by (simp add: initial_vars_def for_loop_steps)
qed

lemma variable_bounds_in:
  assumes "unat N < 2 ^ 60" "1 \<le> unat N"
  shows "variable_bounds N junk =
    Inr (fill (6 * unat N + (unat N - 1)) (6 * unat N + 2 * (unat N - 1)) (- 1)
          (fill (6 * unat N) (6 * unat N + (unat N - 1)) (- max_radians)
            (fill 0 (6 * unat N) (- float_max) (Dvector junk (n_vars N)))),
         fill (6 * unat N + (unat N - 1)) (6 * unat N + 2 * (unat N - 1)) 1
          (fill (6 * unat N) (6 * unat N + (unat N - 1)) max_radians
            (fill 0 (6 * unat N) float_max (Dvector junk (n_vars N)))))"
proof -
  note o = offsets [OF assms(1)] offset_a [OF assms] size_vars [OF assms]
  show ?thesis
    using assms by (simp add: variable_bounds_def bounds_loop Dvector_def o)
qed

lemma constraint_bounds_in:
  assumes "unat N < 2 ^ 60" "1 \<le> unat N"
  shows "constraint_bounds N junk x y psi v cte epsi =
    Inr ((replicate (6 * unat N) 0)[0 := x, unat N := y, 2 * unat N := psi, 3 * unat N := v,
            4 * unat N := cte, 5 * unat N := epsi],
         (replicate (6 * unat N) 0)[0 := x, unat N := y, 2 * unat N := psi, 3 * unat N := v,
            4 * unat N := cte, 5 * unat N := epsi])"
proof -
  note o = offsets [OF assms(1)]
  have z: "fill 0 (6 * unat N) 0 (Dvector junk (n_constraints N)) = replicate (6 * unat N) (0 :: real)"
    by (rule nth_equalityI) (simp_all add: Dvector_def nth_fill o)
  show ?thesis
    using assms by (simp add: constraint_bounds_def bounds_loop Dvector_def o wr_in z [unfolded Dvector_def o])
qed


lemma steps_append:
  assumes "\<And>t r. t \<in> set ts \<Longrightarrow> body (of_nat t) r = Inr (r @ f t)"
  shows "steps body ts r = Inr (r @ concat (map f ts))"
  using assms by (induction ts arbitrary: r) simp_all

lemma push_xy_in:
  assumes "horizon_ok N" "i < unat N - 1" "length sx = unat (n_vars N)"
  shows "push_xy N sx (of_nat i) r = Inr (r @ [x_at N sx (Suc i), y_at N sx (Suc i)])"
proof -
  have n: "unat N < 2 ^ 60" "1 \<le> unat N" "2 \<le> unat N"
    using assms(1) by (simp_all add: horizon_ok_def)
  note o = offsets [OF n(1)]
  have len: "length sx = 6 * unat N + 2 * (unat N - 1)"
    using assms(3) size_vars [OF n(1) n(2)] by simp
  show ?thesis
    using assms(2) n len
    by (simp add: push_xy_def rd_in unat_plus_nat unat_plus_one o x_at_def y_at_def)
qed

lemma extract_result_in:
  assumes "horizon_ok N" "length sx = unat (n_vars N)"
  shows "extract_result N sx =
    Inr ([delta_at N sx 0, a_at N sx 0] @ concat (map (\<lambda>t. [x_at N sx t, y_at N sx t]) [1..<unat N]))"
proof -
  have n: "unat N < 2 ^ 60" "1 \<le> unat N" "2 \<le> unat N"
    using assms(1) by (simp_all add: horizon_ok_def)
  note o = offsets [OF n(1)] offset_a [OF n(1) n(2)]
  have len: "length sx = 6 * unat N + 2 * (unat N - 1)"
    using assms(2) size_vars [OF n(1) n(2)] by simp
  have e: "[1..<unat N] = map Suc [0..<unat N - 1]"
    using n(2) by (simp add: map_Suc_upt)
  have m: "map (\<lambda>i. [x_at N sx (Suc i), y_at N sx (Suc i)]) [0..<unat N - 1]
      = map (\<lambda>t. [x_at N sx t, y_at N sx t]) [1..<unat N]"
    unfolding e map_map comp_def ..
  have "steps (push_xy N sx) [0..<unat N - 1] [delta_at N sx 0, a_at N sx 0]
      = Inr ([delta_at N sx 0, a_at N sx 0]
          @ concat (map (\<lambda>i. [x_at N sx (Suc i), y_at N sx (Suc i)]) [0..<unat N - 1]))"
    by (rule steps_append) (use push_xy_in [OF assms(1) _ assms(2)] in simp)
  then have "steps (push_xy N sx) [0..<unat N - 1] [delta_at N sx 0, a_at N sx 0]
      = Inr ([delta_at N sx 0, a_at N sx 0]
          @ concat (map (\<lambda>t. [x_at N sx t, y_at N sx t]) [1..<unat N]))"
    unfolding m .
  then show ?thesis
    using n len
    by (simp add: extract_result_def rd_in o for_loop_steps unat_minus_one delta_at_def a_at_def)
qed

lemma Solve_problem_in:
  assumes "unat N < 2 ^ 60" "1 \<le> unat N" "6 \<le> length state"
  shows "Solve_problem N junk state coeffs = Inr
     \<lparr> nlp_options = solver_options,
       nlp_xi = replicate (unat (n_vars N)) 0,
       nlp_xl = fill (6 * unat N + (unat N - 1)) (6 * unat N + 2 * (unat N - 1)) (- 1)
          (fill (6 * unat N) (6 * unat N + (unat N - 1)) (- max_radians)
            (fill 0 (6 * unat N) (- float_max) (Dvector junk (n_vars N)))),
       nlp_xu = fill (6 * unat N + (unat N - 1)) (6 * unat N + 2 * (unat N - 1)) 1
          (fill (6 * unat N) (6 * unat N + (unat N - 1)) max_radians
            (fill 0 (6 * unat N) float_max (Dvector junk (n_vars N)))),
       nlp_gl = (replicate (6 * unat N) 0)[0 := state ! 0, unat N := state ! 1,
            2 * unat N := state ! 2, 3 * unat N := state ! 3, 4 * unat N := state ! 4,
            5 * unat N := state ! 5],
       nlp_gu = (replicate (6 * unat N) 0)[0 := state ! 0, unat N := state ! 1,
            2 * unat N := state ! 2, 3 * unat N := state ! 3, 4 * unat N := state ! 4,
            5 * unat N := state ! 5],
       nlp_fg_eval = coeffs \<rparr>"
proof -
  have r: "rd state_vec state 0 = Inr (state ! 0)" "rd state_vec state 1 = Inr (state ! 1)"
    "rd state_vec state 2 = Inr (state ! 2)" "rd state_vec state 3 = Inr (state ! 3)"
    "rd state_vec state 4 = Inr (state ! 4)" "rd state_vec state 5 = Inr (state ! 5)"
    using assms(3) by (auto simp add: rd_def)
  show ?thesis
    by (simp add: Solve_problem_def r initial_vars_in variable_bounds_in [OF assms(1,2)]
        constraint_bounds_in [OF assms(1,2)])
qed


section \<open>The claims about the evaluator\<close>

text \<open>
  The solver calls the evaluator with \<^verbatim>\<open>vars\<close> of the size of the variable bounds,
  \<open>n_vars N\<close>, and \<^verbatim>\<open>fg\<close> of one entry for the cost and one for each constraint bound,
  \<open>1 + n_constraints N\<close>. These are the sizes the theorems below assume.
\<close>

text \<open>
  Claim C3. An evaluation on vectors of the sizes the solver uses, for a horizon of at least
  two steps, ends without a fault, and whatever \<^verbatim>\<open>fg[0]\<close> held before, the cost it leaves
  there is the sum of the tracking terms for \<open>t\<close> in \<open>[0, N)\<close>, of the actuation terms for
  \<open>t\<close> in \<open>[0, N - 1)\<close> and of the smoothness terms for \<open>t\<close> in \<open>[0, N - 2)\<close>, with the
  weights 1500, 2000, 1, 10, 1000 and 10 and the references 0, 0 and \<open>ref_v\<close>.
\<close>

theorem C3_cost:
  assumes "horizon_ok N" "length vars = unat (n_vars N)"
    "length fg = 1 + unat (n_constraints N)" "4 \<le> length coeffs"
  shows "\<exists>fg'. FG_eval N coeffs fg vars = Inr fg' \<and>
    fg' ! 0 =
      (\<Sum>t<unat N. 1500 * (cte_at N vars t - 0) ^ 2 + 2000 * (epsi_at N vars t - 0) ^ 2
          + 1 * (v_at N vars t - ref_v) ^ 2)
      + (\<Sum>t<unat N - 1. 10 * delta_at N vars t ^ 2 + 10 * a_at N vars t ^ 2)
      + (\<Sum>t<unat N - 2. 1000 * (delta_at N vars (t + 1) - delta_at N vars t) ^ 2
          + 10 * (a_at N vars (t + 1) - a_at N vars t) ^ 2)"
proof -
  have n: "unat N < 2 ^ 60"
    using assms(1) by (simp add: horizon_ok_def)
  have l: "length fg = 1 + 6 * unat N"
    using assms(3) offsets(8) [OF n] by simp
  have "fold (six_writes (unat N) (residual N (take 4 coeffs) vars)) [1..<unat N]
          (six_writes (unat N) (first_values N vars) 0 (fg[0 := total_cost N vars])) ! 0
      = total_cost N vars"
    using l by (simp add: fold_six_writes_nth0 six_writes_nth0)
  then show ?thesis
    unfolding FG_eval_in [OF assms(1,2) l assms(4)]
    by (simp add: total_cost_def tracking_term_def actuation_term_def smoothness_term_def)
qed

theorem C3_cost_witness:
  "horizon_ok 2 \<and> (\<exists>fg'. FG_eval 2 [0, 0, 0, 0] (replicate 13 7) (replicate 14 1) = Inr fg'
     \<and> fg' ! 0 = 40302)"
proof -
  have h: "horizon_ok 2"
    by (simp add: horizon_ok_def)
  have v: "length (replicate 14 (1 :: real)) = unat (n_vars 2)"
    by (simp add: n_vars_def)
  have f: "length (replicate 13 (7 :: real)) = 1 + unat (n_constraints 2)"
    by (simp add: n_constraints_def)
  have c: "4 \<le> length [0, 0, 0, 0 :: real]"
    by simp
  show ?thesis
    using C3_cost [OF h v f c] h
    by (simp add: cte_at_def epsi_at_def v_at_def delta_at_def a_at_def ref_v_def)
qed

text \<open>
  Claim C2. After such an evaluation, with the four coefficients of a cubic, the six
  constraints of step 0 are the six state variables of step 0 themselves, and for every
  \<open>t\<close> in \<open>[1, N)\<close> each of the six constraints of step \<open>t\<close> is the state variable of
  step \<open>t\<close> minus the value the kinematic model gives it from step \<open>t - 1\<close>, with the
  negative sign in front of the steering terms of \<open>psi\<close> and \<open>epsi\<close>. The path value is
  the polynomial at \<open>x[t - 1]\<close>, the desired heading the arc tangent of its derivative there.
\<close>

theorem C2_constraints:
  assumes "horizon_ok N" "length vars = unat (n_vars N)"
    "length fg = 1 + unat (n_constraints N)" "length coeffs = 4"
  shows "(\<exists>fg'. FG_eval N coeffs fg vars = Inr fg' \<and>
    fg' ! (1 + unat (x_start N)) = x_at N vars 0 \<and>
    fg' ! (1 + unat (y_start N)) = y_at N vars 0 \<and>
    fg' ! (1 + unat (psi_start N)) = psi_at N vars 0 \<and>
    fg' ! (1 + unat (v_start N)) = v_at N vars 0 \<and>
    fg' ! (1 + unat (cte_start N)) = cte_at N vars 0 \<and>
    fg' ! (1 + unat (epsi_start N)) = epsi_at N vars 0 \<and>
    (\<forall>t. 1 \<le> t \<and> t < unat N \<longrightarrow>
      fg' ! (1 + unat (x_start N) + t) = x_at N vars t
        - (x_at N vars (t - 1) + v_at N vars (t - 1) * cos (psi_at N vars (t - 1)) * dt) \<and>
      fg' ! (1 + unat (y_start N) + t) = y_at N vars t
        - (y_at N vars (t - 1) + v_at N vars (t - 1) * sin (psi_at N vars (t - 1)) * dt) \<and>
      fg' ! (1 + unat (psi_start N) + t) = psi_at N vars t
        - (psi_at N vars (t - 1) - v_at N vars (t - 1) / Lf * delta_at N vars (t - 1) * dt) \<and>
      fg' ! (1 + unat (v_start N) + t) = v_at N vars t
        - (v_at N vars (t - 1) + a_at N vars (t - 1) * dt) \<and>
      fg' ! (1 + unat (cte_start N) + t) = cte_at N vars t
        - ((path_poly coeffs (x_at N vars (t - 1)) - y_at N vars (t - 1))
            + v_at N vars (t - 1) * sin (epsi_at N vars (t - 1)) * dt) \<and>
      fg' ! (1 + unat (epsi_start N) + t) = epsi_at N vars t
        - ((psi_at N vars (t - 1) - arctan (path_slope coeffs (x_at N vars (t - 1))))
            - v_at N vars (t - 1) * delta_at N vars (t - 1) / Lf * dt))) \<and>
    (\<forall>x. (path_poly coeffs has_real_derivative path_slope coeffs x) (at x))"
proof -
  let ?n = "unat N"
  let ?w = "residual N (take 4 coeffs) vars"
  let ?fg0 = "six_writes ?n (first_values N vars) 0 (fg[0 := total_cost N vars])"
  let ?fg' = "fold (six_writes ?n ?w) [1..<?n] ?fg0"
  have n: "?n < 2 ^ 60" "2 \<le> ?n"
    using assms(1) by (simp_all add: horizon_ok_def)
  note o = offsets [OF n(1)]
  have l: "length fg = 1 + 6 * ?n"
    using assms(3) o(8) by simp
  have c: "4 \<le> length coeffs" "take 4 coeffs = coeffs"
    using assms(4) by simp_all
  have l0: "length ?fg0 = 1 + 6 * ?n" "length (fg[0 := total_cost N vars]) = 1 + 6 * ?n"
    using l by simp_all
  have bound: "\<forall>t\<in>set [1..<?n]. t < ?n"
    by simp
  have zero: "0 < ?n"
    using n(2) by simp
  have first: "?fg' ! (1 + 0) = x_at N vars 0" "?fg' ! (1 + ?n + 0) = y_at N vars 0"
    "?fg' ! (1 + 2 * ?n + 0) = psi_at N vars 0" "?fg' ! (1 + 3 * ?n + 0) = v_at N vars 0"
    "?fg' ! (1 + 4 * ?n + 0) = cte_at N vars 0" "?fg' ! (1 + 5 * ?n + 0) = epsi_at N vars 0"
    unfolding fold_six_writes_nth [OF bound zero l0(1), of ?w, THEN conjunct1]
      fold_six_writes_nth [OF bound zero l0(1), of ?w, THEN conjunct2, THEN conjunct1]
      fold_six_writes_nth [OF bound zero l0(1), of ?w, THEN conjunct2, THEN conjunct2, THEN conjunct1]
      fold_six_writes_nth [OF bound zero l0(1), of ?w, THEN conjunct2, THEN conjunct2, THEN conjunct2, THEN conjunct1]
      fold_six_writes_nth [OF bound zero l0(1), of ?w, THEN conjunct2, THEN conjunct2, THEN conjunct2, THEN conjunct2, THEN conjunct1]
      fold_six_writes_nth [OF bound zero l0(1), of ?w, THEN conjunct2, THEN conjunct2, THEN conjunct2, THEN conjunct2, THEN conjunct2]
      six_writes_nth [OF zero zero l0(2), of "first_values N vars"]
    by (simp_all add: first_values_def x_at_def y_at_def psi_at_def v_at_def cte_at_def epsi_at_def)
  have later: "?fg' ! (1 + t) = ?w 0 t \<and> ?fg' ! (1 + ?n + t) = ?w 1 t
      \<and> ?fg' ! (1 + 2 * ?n + t) = ?w 2 t \<and> ?fg' ! (1 + 3 * ?n + t) = ?w 3 t
      \<and> ?fg' ! (1 + 4 * ?n + t) = ?w 4 t \<and> ?fg' ! (1 + 5 * ?n + t) = ?w 5 t"
    if "1 \<le> t" "t < ?n" for t
    using fold_six_writes_nth [OF bound that(2) l0(1), of ?w] that by simp
  have res: "?w 0 t = x_at N vars t
        - (x_at N vars (t - 1) + v_at N vars (t - 1) * cos (psi_at N vars (t - 1)) * dt)"
    "?w 1 t = y_at N vars t
        - (y_at N vars (t - 1) + v_at N vars (t - 1) * sin (psi_at N vars (t - 1)) * dt)"
    "?w 2 t = psi_at N vars t
        - (psi_at N vars (t - 1) - v_at N vars (t - 1) / Lf * delta_at N vars (t - 1) * dt)"
    "?w 3 t = v_at N vars t - (v_at N vars (t - 1) + a_at N vars (t - 1) * dt)"
    "?w 4 t = cte_at N vars t
        - ((path_poly coeffs (x_at N vars (t - 1)) - y_at N vars (t - 1))
            + v_at N vars (t - 1) * sin (epsi_at N vars (t - 1)) * dt)"
    "?w 5 t = epsi_at N vars t
        - ((psi_at N vars (t - 1) - arctan (path_slope coeffs (x_at N vars (t - 1))))
            - v_at N vars (t - 1) * delta_at N vars (t - 1) / Lf * dt)" for t
    by (simp_all add: residual_def c(2) model_x_def model_y_def model_psi_def model_v_def
        model_cte_def model_epsi_def)
  have "FG_eval N coeffs fg vars = Inr ?fg'"
    using FG_eval_in [OF assms(1,2) l c(1)] .
  moreover have "?fg' ! (1 + unat (x_start N)) = x_at N vars 0"
    "?fg' ! (1 + unat (y_start N)) = y_at N vars 0"
    "?fg' ! (1 + unat (psi_start N)) = psi_at N vars 0"
    "?fg' ! (1 + unat (v_start N)) = v_at N vars 0"
    "?fg' ! (1 + unat (cte_start N)) = cte_at N vars 0"
    "?fg' ! (1 + unat (epsi_start N)) = epsi_at N vars 0"
    using first unfolding o by simp_all
  moreover have "\<forall>t. 1 \<le> t \<and> t < ?n \<longrightarrow>
      ?fg' ! (1 + unat (x_start N) + t) = ?w 0 t \<and> ?fg' ! (1 + unat (y_start N) + t) = ?w 1 t \<and>
      ?fg' ! (1 + unat (psi_start N) + t) = ?w 2 t \<and> ?fg' ! (1 + unat (v_start N) + t) = ?w 3 t \<and>
      ?fg' ! (1 + unat (cte_start N) + t) = ?w 4 t \<and> ?fg' ! (1 + unat (epsi_start N) + t) = ?w 5 t"
    using later unfolding o by simp
  ultimately have "\<exists>fg'. FG_eval N coeffs fg vars = Inr fg' \<and>
    fg' ! (1 + unat (x_start N)) = x_at N vars 0 \<and>
    fg' ! (1 + unat (y_start N)) = y_at N vars 0 \<and>
    fg' ! (1 + unat (psi_start N)) = psi_at N vars 0 \<and>
    fg' ! (1 + unat (v_start N)) = v_at N vars 0 \<and>
    fg' ! (1 + unat (cte_start N)) = cte_at N vars 0 \<and>
    fg' ! (1 + unat (epsi_start N)) = epsi_at N vars 0 \<and>
    (\<forall>t. 1 \<le> t \<and> t < ?n \<longrightarrow>
      fg' ! (1 + unat (x_start N) + t) = ?w 0 t \<and> fg' ! (1 + unat (y_start N) + t) = ?w 1 t \<and>
      fg' ! (1 + unat (psi_start N) + t) = ?w 2 t \<and> fg' ! (1 + unat (v_start N) + t) = ?w 3 t \<and>
      fg' ! (1 + unat (cte_start N) + t) = ?w 4 t \<and> fg' ! (1 + unat (epsi_start N) + t) = ?w 5 t)"
    by blast
  then show ?thesis
    unfolding res using path_slope_derivative by blast
qed

theorem C2_constraints_witness:
  "horizon_ok 2 \<and>
   (\<exists>fg'. FG_eval 2 [5, 0, 7, 9] (replicate 13 0)
       [0, 3, 1, 2, 0, 0, 10, 12, 1 / 2, 0, 0, 0, 1 / 10, 1] = Inr fg' \<and>
     fg' ! (1 + unat (x_start 2)) = 0 \<and> fg' ! (1 + unat (y_start 2)) = 1 \<and>
     fg' ! (1 + unat (v_start 2)) = 10 \<and> fg' ! (1 + unat (cte_start 2)) = 1 / 2 \<and>
     fg' ! (1 + unat (x_start 2) + 1) = 2 \<and> fg' ! (1 + unat (y_start 2) + 1) = 1 \<and>
     fg' ! (1 + unat (psi_start 2) + 1) = 10 / 267 \<and>
     fg' ! (1 + unat (v_start 2) + 1) = 19 / 10 \<and>
     fg' ! (1 + unat (cte_start 2) + 1) = - 4 \<and>
     fg' ! (1 + unat (epsi_start 2) + 1) = 10 / 267)"
proof -
  have h: "horizon_ok 2"
    by (simp add: horizon_ok_def)
  have v: "length [0, 3, 1, 2, 0, 0, 10, 12, 1 / 2, 0, 0, 0, 1 / 10, 1 :: real] = unat (n_vars 2)"
    by (simp add: n_vars_def)
  have f: "length (replicate 13 (0 :: real)) = 1 + unat (n_constraints 2)"
    by (simp add: n_constraints_def)
  have c: "length [5, 0, 7, 9 :: real] = 4"
    by simp
  have t: "(\<forall>t. 1 \<le> t \<and> t < unat (2 :: size_t) \<longrightarrow> P t) = P 1" for P :: "nat \<Rightarrow> bool"
  proof -
    have "(1 \<le> t \<and> t < unat (2 :: size_t)) = (t = 1)" for t :: nat
      by auto
    then show ?thesis by simp
  qed
  show ?thesis
    using C2_constraints [OF h v f c, THEN conjunct1] h unfolding t
    by (simp add: x_start_def y_start_def psi_start_def v_start_def cte_start_def epsi_start_def
        x_at_def y_at_def psi_at_def v_at_def cte_at_def epsi_at_def delta_at_def a_at_def
        dt_def Lf_def path_poly4 [OF c] path_slope4 [OF c]) blast
qed


lemma model_step_coeffs:
  assumes "4 \<le> length c1" "4 \<le> length c2" "\<forall>i<4. c1 ! i = c2 ! i"
  shows "model_step N c1 vars = model_step N c2 vars"
proof -
  have "take 4 c1 = take 4 c2"
    using assms by (intro nth_equalityI) simp_all
  then have "rd coeffs_vec c1 0 = rd coeffs_vec c2 0" "rd coeffs_vec c1 1 = rd coeffs_vec c2 1"
    "rd coeffs_vec c1 2 = rd coeffs_vec c2 2" "rd coeffs_vec c1 3 = rd coeffs_vec c2 3"
    by (simp_all add: rd_coeffs [OF assms(1)] rd_coeffs [OF assms(2)])
  then show ?thesis
    unfolding model_step_def by (intro ext) (simp only:)
qed

text \<open>
  Claim C10. Two coefficient vectors of length at least 4 that agree on entries 0 to 3 give
  the same evaluation, on any vectors and for any horizon: the same fault or the same
  \<^verbatim>\<open>fg\<close>, cost and constraints alike. A vector longer than 4 is not refused: on vectors of
  the solver's sizes the evaluation ends without a fault.
\<close>

theorem C10_first_four_coefficients:
  assumes "4 \<le> length c1" "4 \<le> length c2" "\<forall>i<4. c1 ! i = c2 ! i"
  shows "FG_eval N c1 fg vars = FG_eval N c2 fg vars \<and>
    (horizon_ok N \<and> length vars = unat (n_vars N) \<and> length fg = 1 + unat (n_constraints N)
      \<longrightarrow> (\<exists>fg'. FG_eval N c1 fg vars = Inr fg'))"
proof -
  have "FG_eval N c1 fg vars = FG_eval N c2 fg vars"
    by (simp add: FG_eval_def model_constraints_def model_step_coeffs [OF assms])
  moreover have "\<exists>fg'. FG_eval N c1 fg vars = Inr fg'"
    if "horizon_ok N" "length vars = unat (n_vars N)" "length fg = 1 + unat (n_constraints N)"
  proof -
    have "unat N < 2 ^ 60"
      using that(1) by (simp add: horizon_ok_def)
    then have "length fg = 1 + 6 * unat N"
      using that(3) by (simp add: offsets)
    then show ?thesis
      using FG_eval_in [OF that(1,2) _ assms(1)] by simp
  qed
  ultimately show ?thesis by blast
qed

theorem C10_first_four_coefficients_witness:
  "FG_eval 2 [5, 0, 7, 9] (replicate 13 0) (replicate 14 1)
     = FG_eval 2 [5, 0, 7, 9, 11, 13] (replicate 13 0) (replicate 14 1)
   \<and> (\<exists>fg'. FG_eval 2 [5, 0, 7, 9] (replicate 13 0) (replicate 14 1) = Inr fg')"
proof -
  have a: "4 \<le> length [5, 0, 7, 9 :: real]" "4 \<le> length [5, 0, 7, 9, 11, 13 :: real]"
    by simp_all
  have b: "\<forall>i<4. [5, 0, 7, 9 :: real] ! i = [5, 0, 7, 9, 11, 13] ! i"
    by (simp add: nth_Cons' )
  have h: "horizon_ok 2 \<and> length (replicate 14 (1 :: real)) = unat (n_vars 2)
      \<and> length (replicate 13 (0 :: real)) = 1 + unat (n_constraints 2)"
    by (simp add: horizon_ok_def n_vars_def n_constraints_def)
  show ?thesis
    using C10_first_four_coefficients [OF a b, of 2 "replicate 13 0" "replicate 14 1"] h
    by blast
qed

lemma model_step_short:
  assumes "horizon_ok N" "length vars = unat (n_vars N)" "length coeffs < 4"
  shows "model_step N coeffs vars 1 fg = Inl (Out_of_range coeffs_vec (length coeffs))"
proof -
  have n: "unat N < 2 ^ 60" "1 \<le> unat N" "2 \<le> unat N"
    using assms(1) by (simp_all add: horizon_ok_def)
  note o = offsets [OF n(1)] offset_a [OF n(1) n(2)]
  have len: "length vars = 6 * unat N + 2 * (unat N - 1)"
    using assms(2) size_vars [OF n(1) n(2)] by simp
  have "length coeffs = 0 \<or> length coeffs = 1 \<or> length coeffs = 2 \<or> length coeffs = 3"
    using assms(3) by arith
  then have c: "and_then (rd coeffs_vec coeffs 0) (\<lambda>c0. and_then (rd coeffs_vec coeffs 1) (\<lambda>c1.
      and_then (rd coeffs_vec coeffs 2) (\<lambda>c2. and_then (rd coeffs_vec coeffs 3) (k c0 c1 c2))))
      = Inl (Out_of_range coeffs_vec (length coeffs))" for k :: "real \<Rightarrow> real \<Rightarrow> real \<Rightarrow> real \<Rightarrow> fault + real list"
    by (auto simp add: rd_def)
  have v: "rd vars_vec vars (x_start N + 1 - 1) = Inr (vars ! 0)"
    "rd vars_vec vars (y_start N + 1 - 1) = Inr (vars ! unat N)"
    "rd vars_vec vars (psi_start N + 1 - 1) = Inr (vars ! (2 * unat N))"
    "rd vars_vec vars (v_start N + 1 - 1) = Inr (vars ! (3 * unat N))"
    "rd vars_vec vars (cte_start N + 1 - 1) = Inr (vars ! (4 * unat N))"
    "rd vars_vec vars (epsi_start N + 1 - 1) = Inr (vars ! (5 * unat N))"
    "rd vars_vec vars (delta_start N + 1 - 1) = Inr (vars ! (6 * unat N))"
    "rd vars_vec vars (a_start N + 1 - 1) = Inr (vars ! (6 * unat N + (unat N - 1)))"
    "rd vars_vec vars (x_start N + 1) = Inr (vars ! 1)"
    "rd vars_vec vars (y_start N + 1) = Inr (vars ! (unat N + 1))"
    "rd vars_vec vars (psi_start N + 1) = Inr (vars ! (2 * unat N + 1))"
    "rd vars_vec vars (v_start N + 1) = Inr (vars ! (3 * unat N + 1))"
    "rd vars_vec vars (cte_start N + 1) = Inr (vars ! (4 * unat N + 1))"
    "rd vars_vec vars (epsi_start N + 1) = Inr (vars ! (5 * unat N + 1))"
    using n len by (simp_all add: rd_in unat_plus_one o)
  show ?thesis
    unfolding model_step_def v and_then_Inr Let_def by (rule c)
qed

lemma FG_eval_short:
  assumes "horizon_ok N" "length vars = unat (n_vars N)" "length fg = 1 + 6 * unat N"
    "length coeffs < 4"
  shows "FG_eval N coeffs fg vars = Inl (Out_of_range coeffs_vec (length coeffs))"
proof -
  have n: "2 \<le> unat N"
    using assms(1) by (simp add: horizon_ok_def)
  have pos: "\<And>c. 0 < length (fg[0 := c])" "\<And>c. length (fg[0 := c]) = 1 + 6 * unat N"
    using assms(3) by simp_all
  note r = reference_cost_in [OF assms(1,2) pos(1)]
  note a = actuator_cost_in [OF assms(1,2) pos(1)]
  note c = change_cost_in [OF assms(1,2) pos(1)]
  note i = initial_constraints_in [OF assms(1,2) pos(2)]
  have u: "[1..<unat N] = 1 # [2..<unat N]"
    using n by (simp add: upt_conv_Cons numeral_2_eq_2)
  have m: "model_constraints N coeffs vars fg' = Inl (Out_of_range coeffs_vec (length coeffs))"
    for fg'
  proof -
    have "steps (model_step N coeffs vars) (1 # [2..<unat N]) fg'
        = Inl (Out_of_range coeffs_vec (length coeffs))"
      by (simp add: model_step_short [OF assms(1,2,4)])
    then show ?thesis
      unfolding model_constraints_def for_loop_steps unat_1 u .
  qed
  show ?thesis
    using assms(3) by (simp add: FG_eval_def wr_in r a c i m)
qed

text \<open>
  Claim C8, as the code has it. Nothing checks the number of coefficients: \<^verbatim>\<open>Solve\<close> builds
  its problem for a coefficient vector of any length and hands the vector to the evaluator as
  it is. With at least 4 coefficients an evaluation on vectors of the solver's sizes reads
  within the coefficient vector and ends without a fault; with fewer than 4 it reads the
  coefficient vector at its length, beyond its end, in the first step of the model loop.
\<close>

theorem C8_no_coefficient_check:
  assumes "horizon_ok N" "6 \<le> length state" "length vars = unat (n_vars N)"
    "length fg = 1 + unat (n_constraints N)"
  shows "(\<exists>p. Solve_problem N junk state coeffs = Inr p \<and> nlp_fg_eval p = coeffs) \<and>
    (4 \<le> length coeffs \<longrightarrow> (\<exists>fg'. FG_eval N coeffs fg vars = Inr fg')) \<and>
    (length coeffs < 4 \<longrightarrow>
      FG_eval N coeffs fg vars = Inl (Out_of_range coeffs_vec (length coeffs)))"
proof -
  have n: "unat N < 2 ^ 60" "1 \<le> unat N"
    using assms(1) by (simp_all add: horizon_ok_def)
  have l: "length fg = 1 + 6 * unat N"
    using assms(4) by (simp add: offsets [OF n(1)])
  have "\<exists>p. Solve_problem N junk state coeffs = Inr p \<and> nlp_fg_eval p = coeffs"
    unfolding Solve_problem_in [OF n assms(2)] by simp
  moreover have "\<exists>fg'. FG_eval N coeffs fg vars = Inr fg'" if "4 \<le> length coeffs"
    using FG_eval_in [OF assms(1,3) l that] by simp
  moreover have "FG_eval N coeffs fg vars = Inl (Out_of_range coeffs_vec (length coeffs))"
    if "length coeffs < 4"
    using FG_eval_short [OF assms(1,3) l that] .
  ultimately show ?thesis by blast
qed

theorem C8_no_coefficient_check_witness:
  "(\<exists>fg'. FG_eval 2 [5, 0, 7, 9] (replicate 13 0) (replicate 14 1) = Inr fg') \<and>
   (\<exists>p. Solve_problem 2 real [0, 0, 0, 130, 0, 0] [5, 0] = Inr p \<and> nlp_fg_eval p = [5, 0]) \<and>
   FG_eval 2 [5, 0] (replicate 13 0) (replicate 14 1) = Inl (Out_of_range coeffs_vec 2)"
proof -
  have h: "horizon_ok 2" "6 \<le> length [0, 0, 0, 130, 0, 0 :: real]"
    "length (replicate 14 (1 :: real)) = unat (n_vars 2)"
    "length (replicate 13 (0 :: real)) = 1 + unat (n_constraints 2)"
    by (simp_all add: horizon_ok_def n_vars_def n_constraints_def)
  show ?thesis
    using C8_no_coefficient_check [OF h, of real "[5, 0, 7, 9]"]
      C8_no_coefficient_check [OF h, of real "[5, 0]"]
    by simp
qed

text \<open>
  The claim as the specification states it fails at the three coefficients 5, 0, 7: \<^verbatim>\<open>Solve\<close>
  builds its problem and hands them to the evaluator, and the evaluation reads
  \<^verbatim>\<open>coeffs[3]\<close>, beyond the end of the vector.
\<close>

theorem C8_counterexample:
  "map_sum id nlp_fg_eval (Solve_problem 2 real [0, 0, 0, 130, 0, 0] [5, 0, 7]) = Inr [5, 0, 7] \<and>
   FG_eval 2 [5, 0, 7] (replicate 13 0) (replicate 14 1) = Inl (Out_of_range coeffs_vec 3)"
proof -
  have h: "horizon_ok 2" "length (replicate 14 (1 :: real)) = unat (n_vars 2)"
    "length (replicate 13 (0 :: real)) = 1 + 6 * unat (2 :: size_t)"
    "unat (2 :: size_t) < 2 ^ 60" "1 \<le> unat (2 :: size_t)"
    "6 \<le> length [0, 0, 0, 130, 0, 0 :: real]"
    by (simp_all add: horizon_ok_def n_vars_def)
  show ?thesis
    using FG_eval_short [OF h(1,2,3), of "[5, 0, 7]"]
    by (simp add: Solve_problem_in [OF h(4,5,6)])
qed


text \<open>
  Claim C9, as the code has it. For a horizon of at least two steps the smoothness loop makes
  exactly \<open>N - 2\<close> iterations, for the counter values 0 to \<open>N - 3\<close>, reads within the
  variables and adds the smoothness terms to the cost; for \<open>N = 2\<close> it makes none and leaves
  \<^verbatim>\<open>fg\<close> as it is.
\<close>

theorem C9_smoothness_loop:
  assumes "horizon_ok N" "length vars = unat (n_vars N)" "fg \<noteq> []"
  shows "change_cost N vars fg = steps (change_cost_step N vars) [0..<unat N - 2] fg \<and>
    change_cost N vars fg =
      Inr (fg[0 := fg ! 0 + (\<Sum>t<unat N - 2.
        1000 * (delta_at N vars (t + 1) - delta_at N vars t) ^ 2
          + 10 * (a_at N vars (t + 1) - a_at N vars t) ^ 2)]) \<and>
    (N = 2 \<longrightarrow> change_cost N vars fg = Inr fg)"
proof -
  have n: "2 \<le> unat N"
    using assms(1) by (simp add: horizon_ok_def)
  have pos: "0 < length fg"
    using assms(3) by simp
  have a: "change_cost N vars fg = steps (change_cost_step N vars) [0..<unat N - 2] fg"
    by (simp add: change_cost_def for_loop_steps unat_minus_two [OF n])
  have b: "change_cost N vars fg
      = Inr (fg[0 := fg ! 0 + (\<Sum>t<unat N - 2. smoothness_term N vars t)])"
    using change_cost_in [OF assms(1,2) pos] .
  have c: "change_cost N vars fg = Inr fg" if "N = 2"
    unfolding b using that by simp
  show ?thesis
    using a b c by (simp add: smoothness_term_def)
qed

theorem C9_smoothness_loop_witness:
  "change_cost 3 [0, 0, 0, 0, 0, 0, 0, 0, 0, 0, 0, 0, 0, 0, 0, 0, 0, 0, 1, 3, 5, 8] [7]
     = Inr [4097] \<and>
   change_cost 2 (replicate 14 1) [7] = Inr [7]"
proof -
  have h: "horizon_ok 3" "horizon_ok 2" "[7 :: real] \<noteq> []"
    "length [0, 0, 0, 0, 0, 0, 0, 0, 0, 0, 0, 0, 0, 0, 0, 0, 0, 0, 1, 3, 5, 8 :: real] = unat (n_vars 3)"
    "length (replicate 14 (1 :: real)) = unat (n_vars 2)"
    by (simp_all add: horizon_ok_def n_vars_def)
  show ?thesis
    using C9_smoothness_loop [OF h(1,4,3), THEN conjunct2, THEN conjunct1]
      C9_smoothness_loop [OF h(2,5,3), THEN conjunct2, THEN conjunct2]
    by (simp add: delta_at_def a_at_def)
qed

text \<open>
  The claim as the specification states it fails at \<open>N = 1\<close>: the bound \<^verbatim>\<open>N - 2\<close> wraps
  around to \<open>2\<^sup>6\<^sup>4 - 1\<close>, the loop is entered, and with the 6 variables and 7 entries of
  \<^verbatim>\<open>fg\<close> of that horizon its first iteration reads \<^verbatim>\<open>vars[7]\<close>.
\<close>

theorem C9_counterexample:
  "unat ((1 :: size_t) - 2) = 18446744073709551615 \<and>
   change_cost 1 (replicate 6 0) (replicate 7 0) = Inl (Out_of_range vars_vec 7) \<and>
   FG_eval 1 [0, 0, 0, 0] (replicate 7 0) (replicate 6 0) = Inl (Out_of_range vars_vec 7)"
proof -
  have c: "change_cost 1 (replicate 6 0) fg = Inl (Out_of_range vars_vec 7)" for fg
    by (simp add: change_cost_def for_loop.simps [of 0] change_cost_step_def rd_def
        word_gt_0 delta_start_def epsi_start_def cte_start_def v_start_def psi_start_def y_start_def
        x_start_def)
  have r: "reference_cost 1 (replicate 6 0) ((replicate 7 0)[0 := 0])
      = Inr ((replicate 7 0)[0 := 16900])"
    by (simp add: reference_cost_def for_loop.simps [of 0] for_loop.simps [of 1]
        reference_cost_step_def rd_def wr_def fg0_add_def
        epsi_start_def cte_start_def v_start_def psi_start_def y_start_def
        x_start_def v_w_def ref_v_def ref_cte_def ref_epsi_def)
  have a: "actuator_cost 1 vars fg = Inr fg" for vars fg
    by (simp add: actuator_cost_def for_loop.simps [of 0])
  have u: "unat ((1 :: size_t) - 2) = 18446744073709551615"
    by (simp add: unsigned_minus_1_eq_mask mask_eq_exp_minus_1)
  show ?thesis
    using u by (simp add: c FG_eval_def wr_def r a)
qed


section \<open>The claims about \<^verbatim>\<open>Solve\<close>\<close>

lemma Solve_in:
  assumes "horizon_ok N" "6 \<le> length state" "\<forall>p. length (sol_x (solver p)) = unat (n_vars N)"
  shows "\<exists>p. Solve_problem N junk state coeffs = Inr p \<and>
    Solve N junk solver state coeffs =
      Inr \<lparr> result = [delta_at N (sol_x (solver p)) 0, a_at N (sol_x (solver p)) 0]
                @ concat (map (\<lambda>t. [x_at N (sol_x (solver p)) t, y_at N (sol_x (solver p)) t])
                    [1..<unat N]),
            printed_cost = sol_obj_value (solver p) \<rparr>"
proof -
  have n: "unat N < 2 ^ 60" "1 \<le> unat N"
    using assms(1) by (simp_all add: horizon_ok_def)
  obtain p where p: "Solve_problem N junk state coeffs = Inr p"
    using Solve_problem_in [OF n assms(2)] by blast
  have "length (sol_x (solver p)) = unat (n_vars N)"
    using assms(3) by simp
  note e = extract_result_in [OF assms(1) this]
  show ?thesis
    by (rule exI [of _ p]) (simp add: p Solve_def Let_def e)
qed

text \<open>
  Claim C1. The status the solver reports does not reach the caller: \<^verbatim>\<open>Solve\<close> compares it
  with \<^verbatim>\<open>success\<close> into the local \<^verbatim>\<open>ok\<close> and returns the vector of actuations and
  positions read from \<^verbatim>\<open>solution.x\<close> all the same. With the configured horizon and a solver
  that gives up at its initial point, \<^verbatim>\<open>Solve\<close> returns twenty zeros; and replacing the
  status by any other changes neither the returned vector nor the printed cost.
\<close>

theorem C1_status_dropped:
  "Solve N_configured real gives_up [0, 0, 0, 130, 0, 0] [0, 0, 0, 0]
     = Inr \<lparr> result = [0, 0, 0, 0, 0, 0, 0, 0, 0, 0, 0, 0, 0, 0, 0, 0, 0, 0, 0, 0],
             printed_cost = 0 \<rparr> \<and>
   (\<forall>st. Solve N junk (\<lambda>p. (solver p)\<lparr> sol_status := st \<rparr>) state coeffs
     = Solve N junk solver state coeffs)"
proof -
  have h: "horizon_ok N_configured" "6 \<le> length [0, 0, 0, 130, 0, 0 :: real]"
    by (simp_all add: horizon_ok_def N_configured_def)
  have n: "unat N_configured < 2 ^ 60" "1 \<le> unat N_configured"
    by (simp_all add: N_configured_def)
  have x: "sol_x (gives_up p) = replicate 78 0"
    if "Solve_problem N_configured real [0, 0, 0, 130, 0, 0] [0, 0, 0, 0] = Inr p" for p
    using that unfolding Solve_problem_in [OF n h(2)]
    by (auto simp add: gives_up_def n_vars_def N_configured_def)
  have u: "unat N_configured = 10" "unat (n_vars N_configured) = 78"
    by (simp_all add: n_vars_def N_configured_def)
  have l: "[1..<10 :: nat] = [1, 2, 3, 4, 5, 6, 7, 8, 9]"
    by code_simp
  have e: "extract_result N_configured (replicate 78 0) =
      Inr ([delta_at N_configured (replicate 78 0) 0, a_at N_configured (replicate 78 0) 0]
        @ concat (map (\<lambda>t. [x_at N_configured (replicate 78 0) t,
            y_at N_configured (replicate 78 0) t]) [1..<10]))"
    using extract_result_in [OF h(1), of "replicate 78 0"] unfolding u by simp
  have "extract_result N_configured (replicate 78 0) = Inr [0, 0, 0, 0, 0, 0, 0, 0, 0, 0, 0, 0, 0, 0, 0, 0, 0, 0, 0, 0]"
    unfolding e l by (simp add: x_at_def y_at_def delta_at_def a_at_def u)
  then have "Solve N_configured real gives_up [0, 0, 0, 130, 0, 0] [0, 0, 0, 0]
     = Inr \<lparr> result = [0, 0, 0, 0, 0, 0, 0, 0, 0, 0, 0, 0, 0, 0, 0, 0, 0, 0, 0, 0], printed_cost = 0 \<rparr>"
    using x Solve_problem_in [OF n h(2), of real "[0, 0, 0, 0]"]
    by (simp add: Solve_def Let_def gives_up_def u)
  moreover have "Solve N junk (\<lambda>p. (solver p)\<lparr> sol_status := st \<rparr>) state coeffs
     = Solve N junk solver state coeffs" for st
    by (simp add: Solve_def Let_def)
  ultimately show ?thesis by blast
qed


text \<open>
  Claim C6. When the solver returns a vector of the size of the problem, \<^verbatim>\<open>Solve\<close> returns
  one flat vector: the steering \<open>delta\<close> of step 0, the acceleration \<open>a\<close> of step 0, then
  the pairs \<open>x[t]\<close>, \<open>y[t]\<close> for \<open>t\<close> from 1 to \<open>N - 1\<close>, which are \<open>N - 1\<close> pairs.
\<close>

theorem C6_extraction:
  assumes "horizon_ok N" "6 \<le> length state" "\<forall>p. length (sol_x (solver p)) = unat (n_vars N)"
  shows "\<exists>p r. Solve_problem N junk state coeffs = Inr p \<and>
    Solve N junk solver state coeffs = Inr r \<and>
    result r = [delta_at N (sol_x (solver p)) 0, a_at N (sol_x (solver p)) 0]
        @ concat (map (\<lambda>t. [x_at N (sol_x (solver p)) t, y_at N (sol_x (solver p)) t])
            [1..<unat N]) \<and>
    length (result r) = 2 + 2 * (unat N - 1)"
proof -
  obtain p where p: "Solve_problem N junk state coeffs = Inr p"
    and s: "Solve N junk solver state coeffs =
      Inr \<lparr> result = [delta_at N (sol_x (solver p)) 0, a_at N (sol_x (solver p)) 0]
                @ concat (map (\<lambda>t. [x_at N (sol_x (solver p)) t, y_at N (sol_x (solver p)) t])
                    [1..<unat N]),
            printed_cost = sol_obj_value (solver p) \<rparr>"
    using Solve_in [OF assms] by blast
  have "length (concat (map (\<lambda>t. [f t, g t]) ts)) = 2 * length ts"
    for f g :: "nat \<Rightarrow> real" and ts :: "nat list"
    by (induction ts) simp_all
  then show ?thesis
    using p s by (simp add: length_concat)
qed

theorem C6_extraction_witness:
  "\<exists>r. Solve 3 real (\<lambda>p. \<lparr> sol_status = success, sol_x = map real [0..<22], sol_obj_value = 5 \<rparr>)
       [0, 0, 0, 130, 0, 0] [0, 0, 0, 0] = Inr r \<and>
     result r = [18, 20, 1, 4, 2, 5] \<and> length (result r) = 6"
proof -
  let ?solver = "\<lambda>p :: nlp. \<lparr> sol_status = success, sol_x = map real [0..<22], sol_obj_value = 5 \<rparr>"
  have h: "horizon_ok 3" "6 \<le> length [0, 0, 0, 130, 0, 0 :: real]"
    "\<forall>p. length (sol_x (?solver p)) = unat (n_vars 3)"
    by (simp_all add: horizon_ok_def n_vars_def)
  have l: "[1..<3 :: nat] = [1, 2]"
    by code_simp
  have u: "unat (3 :: size_t) = 3"
    by simp
  show ?thesis
    using C6_extraction [OF h, of real "[0, 0, 0, 0]"] unfolding u l
    by (auto simp add: delta_at_def a_at_def x_at_def y_at_def)
qed


text \<open>
  Claim C4. \<^verbatim>\<open>Solve\<close> gives the solver \<open>6 * N\<close> constraint bounds. At each of the six
  offsets of the blocks the lower and the upper bound are both the component of the measured
  state of that block; everywhere else both are 0. So a vector of constraint values within
  the bounds has exactly the measured state at the six offsets, which by claim C2 are the
  variables of step 0.
\<close>

theorem C4_constraint_bounds:
  assumes "horizon_ok N" "6 \<le> length state"
  shows "\<exists>p. Solve_problem N junk state coeffs = Inr p \<and>
    length (nlp_gl p) = unat (n_constraints N) \<and> length (nlp_gu p) = unat (n_constraints N) \<and>
    (\<forall>i<unat (n_constraints N).
      nlp_gl p ! i =
        (if i = unat (x_start N) then state ! 0 else if i = unat (y_start N) then state ! 1
         else if i = unat (psi_start N) then state ! 2 else if i = unat (v_start N) then state ! 3
         else if i = unat (cte_start N) then state ! 4
         else if i = unat (epsi_start N) then state ! 5 else 0) \<and>
      nlp_gu p ! i = nlp_gl p ! i) \<and>
    (\<forall>g. length g = unat (n_constraints N) \<and>
        (\<forall>i<unat (n_constraints N). nlp_gl p ! i \<le> g ! i \<and> g ! i \<le> nlp_gu p ! i) \<longrightarrow>
      g ! unat (x_start N) = state ! 0 \<and> g ! unat (y_start N) = state ! 1 \<and>
      g ! unat (psi_start N) = state ! 2 \<and> g ! unat (v_start N) = state ! 3 \<and>
      g ! unat (cte_start N) = state ! 4 \<and> g ! unat (epsi_start N) = state ! 5)"
proof -
  let ?n = "unat N"
  let ?b = "(replicate (6 * ?n) (0 :: real))[0 := state ! 0, ?n := state ! 1,
      2 * ?n := state ! 2, 3 * ?n := state ! 3, 4 * ?n := state ! 4, 5 * ?n := state ! 5]"
  have n: "?n < 2 ^ 60" "1 \<le> ?n"
    using assms(1) by (simp_all add: horizon_ok_def)
  note o = offsets [OF n(1)]
  obtain p where p: "Solve_problem N junk state coeffs = Inr p"
    and gl: "nlp_gl p = ?b" and gu: "nlp_gu p = ?b"
    using Solve_problem_in [OF n assms(2), of junk coeffs] by simp
  have v: "?b ! i =
        (if i = 0 then state ! 0 else if i = ?n then state ! 1
         else if i = 2 * ?n then state ! 2 else if i = 3 * ?n then state ! 3
         else if i = 4 * ?n then state ! 4
         else if i = 5 * ?n then state ! 5 else 0)" if "i < 6 * ?n" for i
    using that n(2) by (simp add: nth_list_update)
  have pin: "g ! 0 = state ! 0 \<and> g ! ?n = state ! 1 \<and> g ! (2 * ?n) = state ! 2 \<and>
      g ! (3 * ?n) = state ! 3 \<and> g ! (4 * ?n) = state ! 4 \<and> g ! (5 * ?n) = state ! 5"
    if g: "\<forall>i<6 * ?n. ?b ! i \<le> g ! i \<and> g ! i \<le> ?b ! i" for g :: "real list"
  proof -
    have "g ! i = ?b ! i" if "i < 6 * ?n" for i
      using g that by (simp add: order_antisym)
    then have "g ! 0 = ?b ! 0" "g ! ?n = ?b ! ?n" "g ! (2 * ?n) = ?b ! (2 * ?n)"
      "g ! (3 * ?n) = ?b ! (3 * ?n)" "g ! (4 * ?n) = ?b ! (4 * ?n)" "g ! (5 * ?n) = ?b ! (5 * ?n)"
      using n(2) by simp_all
    then show ?thesis
      using n(2) by (simp add: v)
  qed
  have len: "length (nlp_gl p) = unat (n_constraints N)" "length (nlp_gu p) = unat (n_constraints N)"
    by (simp_all add: gl gu o)
  have val: "\<forall>i<unat (n_constraints N).
      nlp_gl p ! i =
        (if i = unat (x_start N) then state ! 0 else if i = unat (y_start N) then state ! 1
         else if i = unat (psi_start N) then state ! 2 else if i = unat (v_start N) then state ! 3
         else if i = unat (cte_start N) then state ! 4
         else if i = unat (epsi_start N) then state ! 5 else 0) \<and>
      nlp_gu p ! i = nlp_gl p ! i"
    unfolding gl gu o using v by blast
  have pinned: "\<forall>g. length g = unat (n_constraints N) \<and>
        (\<forall>i<unat (n_constraints N). nlp_gl p ! i \<le> g ! i \<and> g ! i \<le> nlp_gu p ! i) \<longrightarrow>
      g ! unat (x_start N) = state ! 0 \<and> g ! unat (y_start N) = state ! 1 \<and>
      g ! unat (psi_start N) = state ! 2 \<and> g ! unat (v_start N) = state ! 3 \<and>
      g ! unat (cte_start N) = state ! 4 \<and> g ! unat (epsi_start N) = state ! 5"
    unfolding gl gu o using pin by blast
  show ?thesis
    using p len val pinned by blast
qed


theorem C4_constraint_bounds_witness:
  "\<exists>p. Solve_problem 2 real [1, 2, 3, 4, 5, 6] [0, 0, 0, 0] = Inr p \<and>
     length (nlp_gl p) = 12 \<and> length (nlp_gu p) = 12 \<and>
     nlp_gl p ! 0 = 1 \<and> nlp_gl p ! 1 = 0 \<and> nlp_gl p ! 2 = 2 \<and> nlp_gl p ! 10 = 6 \<and>
     nlp_gu p ! 10 = 6 \<and> nlp_gu p ! 11 = 0 \<and> nlp_gl p ! unat (cte_start 2) = 5"
proof -
  have h: "horizon_ok 2" "6 \<le> length [1, 2, 3, 4, 5, 6 :: real]"
    by (simp_all add: horizon_ok_def)
  have o: "unat (n_constraints 2) = 12" "unat (x_start 2) = 0" "unat (y_start 2) = 2"
    "unat (psi_start 2) = 4" "unat (v_start 2) = 6" "unat (cte_start 2) = 8"
    "unat (epsi_start 2) = 10"
    by (simp_all add: n_constraints_def x_start_def y_start_def psi_start_def v_start_def
        cte_start_def epsi_start_def)
  from C4_constraint_bounds [OF h, of real "[0, 0, 0, 0]"]
  obtain p where p: "Solve_problem 2 real [1, 2, 3, 4, 5, 6] [0, 0, 0, 0] = Inr p"
    and len: "length (nlp_gl p) = 12" "length (nlp_gu p) = 12"
    and val: "\<And>i. i < 12 \<Longrightarrow> nlp_gl p ! i =
        (if i = 0 then [1, 2, 3, 4, 5, 6 :: real] ! 0 else if i = 2 then [1, 2, 3, 4, 5, 6] ! 1
         else if i = 4 then [1, 2, 3, 4, 5, 6] ! 2 else if i = 6 then [1, 2, 3, 4, 5, 6] ! 3
         else if i = 8 then [1, 2, 3, 4, 5, 6] ! 4
         else if i = 10 then [1, 2, 3, 4, 5, 6] ! 5 else 0) \<and>
      nlp_gu p ! i = nlp_gl p ! i"
    and pinned: "\<And>g. length g = 12 \<and> (\<forall>i<12. nlp_gl p ! i \<le> g ! i \<and> g ! i \<le> nlp_gu p ! i)
      \<Longrightarrow> g ! 8 = [1, 2, 3, 4, 5, 6 :: real] ! 4"
    unfolding o by blast
  have "nlp_gl p ! 8 = 5"
    using pinned [of "nlp_gl p"] len val by simp
  then show ?thesis
    using p len val [of 0] val [of 1] val [of 2] val [of 10] val [of 11]
    by (simp add: o)
qed

text \<open>
  Claim C5. \<^verbatim>\<open>Solve\<close> gives the solver \<open>N * 6 + (N - 1) * 2\<close> pairs of variable bounds:
  minus and plus the largest \<^verbatim>\<open>float\<close> below \<^verbatim>\<open>delta_start\<close>, minus and plus
  \<open>25 * pi / 180\<close> from \<^verbatim>\<open>delta_start\<close> to below \<^verbatim>\<open>a_start\<close>, and \<open>-1\<close> and \<open>1\<close> from
  \<^verbatim>\<open>a_start\<close> to the end, whatever the fresh vectors held.
\<close>

theorem C5_variable_bounds:
  assumes "horizon_ok N" "6 \<le> length state"
  shows "\<exists>p. Solve_problem N junk state coeffs = Inr p \<and>
    length (nlp_xl p) = unat (n_vars N) \<and> length (nlp_xu p) = unat (n_vars N) \<and>
    (\<forall>i<unat (delta_start N). nlp_xl p ! i = - float_max \<and> nlp_xu p ! i = float_max) \<and>
    (\<forall>i. unat (delta_start N) \<le> i \<and> i < unat (a_start N) \<longrightarrow>
      nlp_xl p ! i = - (25 * pi / 180) \<and> nlp_xu p ! i = 25 * pi / 180) \<and>
    (\<forall>i. unat (a_start N) \<le> i \<and> i < unat (n_vars N) \<longrightarrow>
      nlp_xl p ! i = - 1 \<and> nlp_xu p ! i = 1) \<and>
    float_max = 340282346638528859811704183484516925440"
proof -
  let ?n = "unat N"
  let ?d = "6 * ?n" and ?a = "6 * ?n + (?n - 1)" and ?e = "6 * ?n + 2 * (?n - 1)"
  let ?l = "fill ?a ?e (- 1) (fill ?d ?a (- max_radians) (fill 0 ?d (- float_max)
      (Dvector junk (n_vars N))))"
  let ?u = "fill ?a ?e 1 (fill ?d ?a max_radians (fill 0 ?d float_max (Dvector junk (n_vars N))))"
  have n: "?n < 2 ^ 60" "1 \<le> ?n"
    using assms(1) by (simp_all add: horizon_ok_def)
  note o = offsets(7) [OF n(1)] offset_a [OF n] size_vars [OF n]
  obtain p where p: "Solve_problem N junk state coeffs = Inr p"
    and xl: "nlp_xl p = ?l" and xu: "nlp_xu p = ?u"
    using Solve_problem_in [OF n assms(2), of junk coeffs] by simp
  have len: "length ?l = ?e" "length ?u = ?e"
    by (simp_all add: Dvector_def o)
  have low: "?l ! i = - float_max \<and> ?u ! i = float_max" if "i < ?d" for i
  proof -
    have "\<not> ?a \<le> i" "\<not> ?d \<le> i" "i < ?e"
      using that n(2) by arith+
    then show ?thesis
      by (simp add: nth_fill Dvector_def o)
  qed
  have mid: "?l ! i = - (25 * pi / 180) \<and> ?u ! i = 25 * pi / 180" if "?d \<le> i" "i < ?a" for i
  proof -
    have "\<not> ?a \<le> i" "i < ?e"
      using that n(2) by arith+
    then show ?thesis
      using that by (simp add: nth_fill Dvector_def o max_radians_def max_degrees_def)
  qed
  have high: "?l ! i = - 1 \<and> ?u ! i = 1" if "?a \<le> i" "i < ?e" for i
    using that by (simp add: nth_fill Dvector_def o)
  have f: "float_max = 340282346638528859811704183484516925440"
    by (simp add: float_max_def)
  show ?thesis
    unfolding o using p len low mid high f unfolding xl [symmetric] xu [symmetric] by blast
qed

theorem C5_variable_bounds_witness:
  "\<exists>p. Solve_problem 3 real [1, 2, 3, 4, 5, 6] [0, 0, 0, 0] = Inr p \<and>
     length (nlp_xl p) = 22 \<and> length (nlp_xu p) = 22 \<and>
     nlp_xl p ! 0 = - float_max \<and> nlp_xu p ! 17 = float_max \<and>
     nlp_xl p ! 18 = - (25 * pi / 180) \<and> nlp_xu p ! 19 = 25 * pi / 180 \<and>
     nlp_xl p ! 20 = - 1 \<and> nlp_xu p ! 21 = 1"
proof -
  have h: "horizon_ok 3" "6 \<le> length [1, 2, 3, 4, 5, 6 :: real]"
    by (simp_all add: horizon_ok_def)
  have o: "unat (n_vars 3) = 22" "unat (delta_start 3) = 18" "unat (a_start 3) = 20"
    by (simp_all add: n_vars_def a_start_def delta_start_def x_start_def y_start_def
        psi_start_def v_start_def cte_start_def epsi_start_def)
  from C5_variable_bounds [OF h, of real "[0, 0, 0, 0]"]
  obtain p where p: "Solve_problem 3 real [1, 2, 3, 4, 5, 6] [0, 0, 0, 0] = Inr p"
    and len: "length (nlp_xl p) = 22" "length (nlp_xu p) = 22"
    and low: "\<And>i. i < 18 \<Longrightarrow> nlp_xl p ! i = - float_max \<and> nlp_xu p ! i = float_max"
    and mid: "\<And>i. 18 \<le> i \<and> i < 20 \<Longrightarrow>
      nlp_xl p ! i = - (25 * pi / 180) \<and> nlp_xu p ! i = 25 * pi / 180"
    and high: "\<And>i. 20 \<le> i \<and> i < 22 \<Longrightarrow> nlp_xl p ! i = - 1 \<and> nlp_xu p ! i = 1"
    unfolding o by blast
  show ?thesis
    using p len low [of 0] low [of 17] mid [of 18] mid [of 19] high [of 20] high [of 21]
    by simp
qed


lemma FG_eval_values:
  assumes "horizon_ok N" "length vars = unat (n_vars N)" "length fg = 1 + 6 * unat N"
    "4 \<le> length coeffs"
  shows "\<exists>fg'. FG_eval N coeffs fg vars = Inr fg' \<and> length fg' = 1 + 6 * unat N \<and>
    fg' ! 0 = total_cost N vars \<and>
    fg' ! (1 + 0) = x_at N vars 0 \<and> fg' ! (1 + unat N) = y_at N vars 0 \<and>
    fg' ! (1 + 2 * unat N) = psi_at N vars 0 \<and> fg' ! (1 + 3 * unat N) = v_at N vars 0 \<and>
    fg' ! (1 + 4 * unat N) = cte_at N vars 0 \<and> fg' ! (1 + 5 * unat N) = epsi_at N vars 0 \<and>
    (\<forall>t. 1 \<le> t \<and> t < unat N \<longrightarrow>
      fg' ! (1 + 0 + t) = residual N (take 4 coeffs) vars 0 t \<and>
      fg' ! (1 + unat N + t) = residual N (take 4 coeffs) vars 1 t \<and>
      fg' ! (1 + 2 * unat N + t) = residual N (take 4 coeffs) vars 2 t \<and>
      fg' ! (1 + 3 * unat N + t) = residual N (take 4 coeffs) vars 3 t \<and>
      fg' ! (1 + 4 * unat N + t) = residual N (take 4 coeffs) vars 4 t \<and>
      fg' ! (1 + 5 * unat N + t) = residual N (take 4 coeffs) vars 5 t)"
proof -
  let ?n = "unat N"
  let ?w = "residual N (take 4 coeffs) vars"
  let ?fg0 = "six_writes ?n (first_values N vars) 0 (fg[0 := total_cost N vars])"
  let ?fg' = "fold (six_writes ?n ?w) [1..<?n] ?fg0"
  have n: "2 \<le> ?n"
    using assms(1) by (simp add: horizon_ok_def)
  have l0: "length ?fg0 = 1 + 6 * ?n" "length (fg[0 := total_cost N vars]) = 1 + 6 * ?n"
    using assms(3) by simp_all
  have bound: "\<forall>t\<in>set [1..<?n]. t < ?n"
    by simp
  have zero: "0 < ?n"
    using n by simp
  have ev: "FG_eval N coeffs fg vars = Inr ?fg'"
    using FG_eval_in [OF assms] .
  have len: "length ?fg' = 1 + 6 * ?n"
    using l0 by simp
  have cost: "?fg' ! 0 = total_cost N vars"
    using assms(3) by (simp add: fold_six_writes_nth0 six_writes_nth0)
  have "?fg' ! (1 + 0) = first_values N vars 0 0 \<and> ?fg' ! (1 + ?n + 0) = first_values N vars 1 0
      \<and> ?fg' ! (1 + 2 * ?n + 0) = first_values N vars 2 0
      \<and> ?fg' ! (1 + 3 * ?n + 0) = first_values N vars 3 0
      \<and> ?fg' ! (1 + 4 * ?n + 0) = first_values N vars 4 0
      \<and> ?fg' ! (1 + 5 * ?n + 0) = first_values N vars 5 0"
    using fold_six_writes_nth [OF bound zero l0(1), of ?w]
      six_writes_nth [OF zero zero l0(2), of "first_values N vars"]
    by simp
  then have first: "?fg' ! (1 + 0) = x_at N vars 0" "?fg' ! (1 + ?n) = y_at N vars 0"
    "?fg' ! (1 + 2 * ?n) = psi_at N vars 0" "?fg' ! (1 + 3 * ?n) = v_at N vars 0"
    "?fg' ! (1 + 4 * ?n) = cte_at N vars 0" "?fg' ! (1 + 5 * ?n) = epsi_at N vars 0"
    by (simp_all add: first_values_def x_at_def y_at_def psi_at_def v_at_def cte_at_def
        epsi_at_def)
  have later: "?fg' ! (1 + 0 + t) = ?w 0 t \<and> ?fg' ! (1 + ?n + t) = ?w 1 t
      \<and> ?fg' ! (1 + 2 * ?n + t) = ?w 2 t \<and> ?fg' ! (1 + 3 * ?n + t) = ?w 3 t
      \<and> ?fg' ! (1 + 4 * ?n + t) = ?w 4 t \<and> ?fg' ! (1 + 5 * ?n + t) = ?w 5 t"
    if "1 \<le> t" "t < ?n" for t
    using fold_six_writes_nth [OF bound that(2) l0(1), of ?w] that by simp
  show ?thesis
    using ev len cost first later by blast
qed

text \<open>
  Claim C7. For a horizon of at least two steps the offsets are those of six blocks of length
  \<open>N\<close>, in the order \<open>x\<close>, \<open>y\<close>, \<open>psi\<close>, \<open>v\<close>, \<open>cte\<close>, \<open>epsi\<close> from offset 0, then a
  block of length \<open>N - 1\<close> for \<open>delta\<close> and one for \<open>a\<close>, which ends at
  \<open>N * 6 + (N - 1) * 2\<close>, the number of variables; there are \<open>N * 6\<close> constraints. On a
  vector of variables of this size a read at an offset plus \<open>t\<close> is a read of entry \<open>t\<close> of
  its block. \<^verbatim>\<open>Solve\<close> and the evaluator both go through this layout. The vectors
  \<^verbatim>\<open>Solve\<close> gives the solver have these sizes; the bounds of the variables change at the
  start of the \<open>delta\<close> block and at the start of the \<open>a\<close> block; the constraint bounds
  hold the state at the starts of the six state blocks; the returned vector holds entry 0 of
  the \<open>delta\<close> and \<open>a\<close> blocks and entries 1 to \<open>N - 1\<close> of the \<open>x\<close> and \<open>y\<close> blocks.
  The evaluator leaves in \<^verbatim>\<open>fg\<close> the cost computed from the \<open>cte\<close>, \<open>epsi\<close>, \<open>v\<close>,
  \<open>delta\<close> and \<open>a\<close> blocks, and at one plus the start of each state block plus \<open>t\<close> the
  constraint of that block at step \<open>t\<close>: entry 0 of the block for \<open>t = 0\<close>, and for
  \<open>t\<close> in \<open>[1, N)\<close> entry \<open>t\<close> minus the model at the entries \<open>t - 1\<close> of the blocks.
\<close>

theorem C7_layout:
  assumes "horizon_ok N" "6 \<le> length state"
  shows "unat (x_start N) = 0 \<and> unat (y_start N) = unat N \<and>
    unat (psi_start N) = 2 * unat N \<and> unat (v_start N) = 3 * unat N \<and>
    unat (cte_start N) = 4 * unat N \<and> unat (epsi_start N) = 5 * unat N \<and>
    unat (delta_start N) = 6 * unat N \<and> unat (a_start N) = 6 * unat N + (unat N - 1) \<and>
    unat (a_start N) + (unat N - 1) = unat (n_vars N) \<and>
    unat (n_vars N) = unat N * 6 + (unat N - 1) * 2 \<and>
    unat (n_constraints N) = unat N * 6 \<and>
    (\<exists>p. Solve_problem N junk state coeffs = Inr p \<and>
      length (nlp_xi p) = unat (n_vars N) \<and> length (nlp_xl p) = unat (n_vars N) \<and>
      length (nlp_xu p) = unat (n_vars N) \<and> length (nlp_gl p) = unat (n_constraints N) \<and>
      length (nlp_gu p) = unat (n_constraints N) \<and>
      (\<forall>i<unat (delta_start N). nlp_xl p ! i = - float_max \<and> nlp_xu p ! i = float_max) \<and>
      (\<forall>t<unat N - 1.
        nlp_xl p ! (unat (delta_start N) + t) = - max_radians \<and>
        nlp_xu p ! (unat (delta_start N) + t) = max_radians \<and>
        nlp_xl p ! (unat (a_start N) + t) = - 1 \<and> nlp_xu p ! (unat (a_start N) + t) = 1) \<and>
      nlp_gl p ! unat (x_start N) = state ! 0 \<and> nlp_gu p ! unat (x_start N) = state ! 0 \<and>
      nlp_gl p ! unat (y_start N) = state ! 1 \<and> nlp_gu p ! unat (y_start N) = state ! 1 \<and>
      nlp_gl p ! unat (psi_start N) = state ! 2 \<and> nlp_gu p ! unat (psi_start N) = state ! 2 \<and>
      nlp_gl p ! unat (v_start N) = state ! 3 \<and> nlp_gu p ! unat (v_start N) = state ! 3 \<and>
      nlp_gl p ! unat (cte_start N) = state ! 4 \<and> nlp_gu p ! unat (cte_start N) = state ! 4 \<and>
      nlp_gl p ! unat (epsi_start N) = state ! 5 \<and> nlp_gu p ! unat (epsi_start N) = state ! 5) \<and>
    (\<forall>vars t. length vars = unat (n_vars N) \<and> t < unat N \<longrightarrow>
      rd vars_vec vars (x_start N + of_nat t) = Inr (x_at N vars t) \<and>
      rd vars_vec vars (y_start N + of_nat t) = Inr (y_at N vars t) \<and>
      rd vars_vec vars (psi_start N + of_nat t) = Inr (psi_at N vars t) \<and>
      rd vars_vec vars (v_start N + of_nat t) = Inr (v_at N vars t) \<and>
      rd vars_vec vars (cte_start N + of_nat t) = Inr (cte_at N vars t) \<and>
      rd vars_vec vars (epsi_start N + of_nat t) = Inr (epsi_at N vars t)) \<and>
    (\<forall>vars t. length vars = unat (n_vars N) \<and> t < unat N - 1 \<longrightarrow>
      rd vars_vec vars (delta_start N + of_nat t) = Inr (delta_at N vars t) \<and>
      rd vars_vec vars (a_start N + of_nat t) = Inr (a_at N vars t)) \<and>
    (\<forall>vars fg. length vars = unat (n_vars N) \<and> length fg = 1 + unat (n_constraints N) \<and>
        4 \<le> length coeffs \<longrightarrow>
      (\<exists>fg'. FG_eval N coeffs fg vars = Inr fg' \<and> length fg' = 1 + unat (n_constraints N) \<and>
        fg' ! 0 = total_cost N vars \<and>
        fg' ! (1 + unat (x_start N)) = x_at N vars 0 \<and>
        fg' ! (1 + unat (y_start N)) = y_at N vars 0 \<and>
        fg' ! (1 + unat (psi_start N)) = psi_at N vars 0 \<and>
        fg' ! (1 + unat (v_start N)) = v_at N vars 0 \<and>
        fg' ! (1 + unat (cte_start N)) = cte_at N vars 0 \<and>
        fg' ! (1 + unat (epsi_start N)) = epsi_at N vars 0 \<and>
        (\<forall>t. 1 \<le> t \<and> t < unat N \<longrightarrow>
          fg' ! (1 + unat (x_start N) + t) = x_at N vars t - model_x N vars t \<and>
          fg' ! (1 + unat (y_start N) + t) = y_at N vars t - model_y N vars t \<and>
          fg' ! (1 + unat (psi_start N) + t) = psi_at N vars t - model_psi N vars t \<and>
          fg' ! (1 + unat (v_start N) + t) = v_at N vars t - model_v N vars t \<and>
          fg' ! (1 + unat (cte_start N) + t)
            = cte_at N vars t - model_cte N (take 4 coeffs) vars t \<and>
          fg' ! (1 + unat (epsi_start N) + t)
            = epsi_at N vars t - model_epsi N (take 4 coeffs) vars t))) \<and>
    (\<forall>sx. length sx = unat (n_vars N) \<longrightarrow>
      extract_result N sx =
        Inr ([delta_at N sx 0, a_at N sx 0]
          @ concat (map (\<lambda>t. [x_at N sx t, y_at N sx t]) [1..<unat N])))"
proof -
  let ?n = "unat N"
  let ?d = "6 * ?n" and ?a = "6 * ?n + (?n - 1)" and ?e = "6 * ?n + 2 * (?n - 1)"
  let ?l = "fill ?a ?e (- 1) (fill ?d ?a (- max_radians) (fill 0 ?d (- float_max)
      (Dvector junk (n_vars N))))"
  let ?u = "fill ?a ?e 1 (fill ?d ?a max_radians (fill 0 ?d float_max (Dvector junk (n_vars N))))"
  let ?b = "(replicate (6 * ?n) (0 :: real))[0 := state ! 0, ?n := state ! 1,
      2 * ?n := state ! 2, 3 * ?n := state ! 3, 4 * ?n := state ! 4, 5 * ?n := state ! 5]"
  have n: "?n < 2 ^ 60" "1 \<le> ?n"
    using assms(1) by (simp_all add: horizon_ok_def)
  note o = offsets [OF n(1)] offset_a [OF n] size_vars [OF n]
  have off: "unat (x_start N) = 0 \<and> unat (y_start N) = unat N \<and>
    unat (psi_start N) = 2 * unat N \<and> unat (v_start N) = 3 * unat N \<and>
    unat (cte_start N) = 4 * unat N \<and> unat (epsi_start N) = 5 * unat N \<and>
    unat (delta_start N) = 6 * unat N \<and> unat (a_start N) = 6 * unat N + (unat N - 1) \<and>
    unat (a_start N) + (unat N - 1) = unat (n_vars N) \<and>
    unat (n_vars N) = unat N * 6 + (unat N - 1) * 2 \<and>
    unat (n_constraints N) = unat N * 6"
    unfolding o by simp
  obtain p where p: "Solve_problem N junk state coeffs = Inr p"
    and xi: "nlp_xi p = replicate (unat (n_vars N)) 0"
    and xl: "nlp_xl p = ?l" and xu: "nlp_xu p = ?u"
    and gl: "nlp_gl p = ?b" and gu: "nlp_gu p = ?b"
    using Solve_problem_in [OF n assms(2), of junk coeffs] by simp
  have len: "length (nlp_xi p) = unat (n_vars N)" "length (nlp_xl p) = unat (n_vars N)"
    "length (nlp_xu p) = unat (n_vars N)" "length (nlp_gl p) = unat (n_constraints N)"
    "length (nlp_gu p) = unat (n_constraints N)"
    by (simp_all add: xi xl xu gl gu Dvector_def o)
  have low: "nlp_xl p ! i = - float_max \<and> nlp_xu p ! i = float_max"
    if "i < unat (delta_start N)" for i
  proof -
    have "\<not> ?a \<le> i" "\<not> ?d \<le> i" "i < ?e"
      using that n(2) unfolding o by arith+
    then show ?thesis
      by (simp add: xl xu nth_fill Dvector_def o)
  qed
  have act: "nlp_xl p ! (unat (delta_start N) + t) = - max_radians \<and>
      nlp_xu p ! (unat (delta_start N) + t) = max_radians \<and>
      nlp_xl p ! (unat (a_start N) + t) = - 1 \<and> nlp_xu p ! (unat (a_start N) + t) = 1"
    if "t < ?n - 1" for t
  proof -
    have "\<not> ?a \<le> ?d + t" "?d + t < ?e" "?d \<le> ?d + t" "?d + t < ?a" "?a \<le> ?a + t" "?a + t < ?e"
      using that by arith+
    then show ?thesis
      unfolding o xl xu by (simp add: nth_fill Dvector_def o)
  qed
  have b: "?b ! 0 = state ! 0" "?b ! ?n = state ! 1" "?b ! (2 * ?n) = state ! 2"
    "?b ! (3 * ?n) = state ! 3" "?b ! (4 * ?n) = state ! 4" "?b ! (5 * ?n) = state ! 5"
    using n(2) by (simp_all add: nth_list_update)
  have pin: "nlp_gl p ! unat (x_start N) = state ! 0" "nlp_gu p ! unat (x_start N) = state ! 0"
    "nlp_gl p ! unat (y_start N) = state ! 1" "nlp_gu p ! unat (y_start N) = state ! 1"
    "nlp_gl p ! unat (psi_start N) = state ! 2" "nlp_gu p ! unat (psi_start N) = state ! 2"
    "nlp_gl p ! unat (v_start N) = state ! 3" "nlp_gu p ! unat (v_start N) = state ! 3"
    "nlp_gl p ! unat (cte_start N) = state ! 4" "nlp_gu p ! unat (cte_start N) = state ! 4"
    "nlp_gl p ! unat (epsi_start N) = state ! 5" "nlp_gu p ! unat (epsi_start N) = state ! 5"
    unfolding gl gu o(1-6) by (rule b)+
  have prob: "\<exists>p. Solve_problem N junk state coeffs = Inr p \<and>
      length (nlp_xi p) = unat (n_vars N) \<and> length (nlp_xl p) = unat (n_vars N) \<and>
      length (nlp_xu p) = unat (n_vars N) \<and> length (nlp_gl p) = unat (n_constraints N) \<and>
      length (nlp_gu p) = unat (n_constraints N) \<and>
      (\<forall>i<unat (delta_start N). nlp_xl p ! i = - float_max \<and> nlp_xu p ! i = float_max) \<and>
      (\<forall>t<unat N - 1.
        nlp_xl p ! (unat (delta_start N) + t) = - max_radians \<and>
        nlp_xu p ! (unat (delta_start N) + t) = max_radians \<and>
        nlp_xl p ! (unat (a_start N) + t) = - 1 \<and> nlp_xu p ! (unat (a_start N) + t) = 1) \<and>
      nlp_gl p ! unat (x_start N) = state ! 0 \<and> nlp_gu p ! unat (x_start N) = state ! 0 \<and>
      nlp_gl p ! unat (y_start N) = state ! 1 \<and> nlp_gu p ! unat (y_start N) = state ! 1 \<and>
      nlp_gl p ! unat (psi_start N) = state ! 2 \<and> nlp_gu p ! unat (psi_start N) = state ! 2 \<and>
      nlp_gl p ! unat (v_start N) = state ! 3 \<and> nlp_gu p ! unat (v_start N) = state ! 3 \<and>
      nlp_gl p ! unat (cte_start N) = state ! 4 \<and> nlp_gu p ! unat (cte_start N) = state ! 4 \<and>
      nlp_gl p ! unat (epsi_start N) = state ! 5 \<and> nlp_gu p ! unat (epsi_start N) = state ! 5"
    using p len low act pin by blast
  have states: "rd vars_vec vars (x_start N + of_nat t) = Inr (x_at N vars t) \<and>
      rd vars_vec vars (y_start N + of_nat t) = Inr (y_at N vars t) \<and>
      rd vars_vec vars (psi_start N + of_nat t) = Inr (psi_at N vars t) \<and>
      rd vars_vec vars (v_start N + of_nat t) = Inr (v_at N vars t) \<and>
      rd vars_vec vars (cte_start N + of_nat t) = Inr (cte_at N vars t) \<and>
      rd vars_vec vars (epsi_start N + of_nat t) = Inr (epsi_at N vars t)"
    if "length vars = unat (n_vars N)" "t < ?n" for vars :: "real list" and t
    using that n unfolding o
    by (simp add: rd_in unat_plus_nat o x_at_def y_at_def psi_at_def v_at_def cte_at_def
        epsi_at_def)
  have acts: "rd vars_vec vars (delta_start N + of_nat t) = Inr (delta_at N vars t) \<and>
      rd vars_vec vars (a_start N + of_nat t) = Inr (a_at N vars t)"
    if "length vars = unat (n_vars N)" "t < ?n - 1" for vars :: "real list" and t
    using that n unfolding o
    by (simp add: rd_in unat_plus_nat o delta_at_def a_at_def)
  have r: "residual N (take 4 coeffs) vars 0 t = x_at N vars t - model_x N vars t"
    "residual N (take 4 coeffs) vars 1 t = y_at N vars t - model_y N vars t"
    "residual N (take 4 coeffs) vars 2 t = psi_at N vars t - model_psi N vars t"
    "residual N (take 4 coeffs) vars 3 t = v_at N vars t - model_v N vars t"
    "residual N (take 4 coeffs) vars 4 t = cte_at N vars t - model_cte N (take 4 coeffs) vars t"
    "residual N (take 4 coeffs) vars 5 t = epsi_at N vars t - model_epsi N (take 4 coeffs) vars t"
    for vars t
    by (simp_all add: residual_def)
  have ev: "\<exists>fg'. FG_eval N coeffs fg vars = Inr fg' \<and> length fg' = 1 + unat (n_constraints N) \<and>
        fg' ! 0 = total_cost N vars \<and>
        fg' ! (1 + unat (x_start N)) = x_at N vars 0 \<and>
        fg' ! (1 + unat (y_start N)) = y_at N vars 0 \<and>
        fg' ! (1 + unat (psi_start N)) = psi_at N vars 0 \<and>
        fg' ! (1 + unat (v_start N)) = v_at N vars 0 \<and>
        fg' ! (1 + unat (cte_start N)) = cte_at N vars 0 \<and>
        fg' ! (1 + unat (epsi_start N)) = epsi_at N vars 0 \<and>
        (\<forall>t. 1 \<le> t \<and> t < unat N \<longrightarrow>
          fg' ! (1 + unat (x_start N) + t) = x_at N vars t - model_x N vars t \<and>
          fg' ! (1 + unat (y_start N) + t) = y_at N vars t - model_y N vars t \<and>
          fg' ! (1 + unat (psi_start N) + t) = psi_at N vars t - model_psi N vars t \<and>
          fg' ! (1 + unat (v_start N) + t) = v_at N vars t - model_v N vars t \<and>
          fg' ! (1 + unat (cte_start N) + t)
            = cte_at N vars t - model_cte N (take 4 coeffs) vars t \<and>
          fg' ! (1 + unat (epsi_start N) + t)
            = epsi_at N vars t - model_epsi N (take 4 coeffs) vars t)"
    if "length vars = unat (n_vars N)" "length fg = 1 + unat (n_constraints N)"
      "4 \<le> length coeffs" for vars fg
  proof -
    have l: "length fg = 1 + 6 * ?n"
      using that(2) by (simp add: o)
    show ?thesis
      using FG_eval_values [OF assms(1) that(1) l that(3)] unfolding o r by simp
  qed
  have ex: "extract_result N sx =
        Inr ([delta_at N sx 0, a_at N sx 0]
          @ concat (map (\<lambda>t. [x_at N sx t, y_at N sx t]) [1..<unat N]))"
    if "length sx = unat (n_vars N)" for sx
    using extract_result_in [OF assms(1) that] .
  show ?thesis
    using off prob states acts ev ex by blast
qed

theorem C7_layout_witness:
  "unat (a_start 3) = 20 \<and> unat (n_vars 3) = 22 \<and> unat (n_constraints 3) = 18 \<and>
   (\<exists>p. Solve_problem 3 real [1, 2, 3, 4, 5, 6] [0, 0, 0, 0] = Inr p \<and>
      length (nlp_xi p) = 22 \<and> length (nlp_gl p) = 18 \<and>
      nlp_xl p ! 17 = - float_max \<and> nlp_xl p ! (unat (delta_start 3) + 1) = - max_radians \<and>
      nlp_xu p ! (unat (a_start 3) + 0) = 1 \<and> nlp_gl p ! unat (cte_start 3) = 5) \<and>
   rd vars_vec (map real [0..<22]) (v_start 3 + 2) = Inr 11 \<and>
   rd vars_vec (map real [0..<22]) (a_start 3 + 1) = Inr 21 \<and>
   (\<exists>fg'. FG_eval 3 [0, 0, 0, 0] (replicate 19 0) (map real [0..<22]) = Inr fg'
      \<and> length fg' = 19 \<and> fg' ! (1 + unat (y_start 3)) = 3
      \<and> fg' ! (1 + unat (v_start 3) + 1) = - 1) \<and>
   extract_result 3 (map real [0..<22]) = Inr [18, 20, 1, 4, 2, 5]"
proof -
  let ?v = "map real [0..<22]"
  have h: "horizon_ok 3" "6 \<le> length [1, 2, 3, 4, 5, 6 :: real]"
    by (simp_all add: horizon_ok_def)
  have u: "unat (3 :: size_t) = 3"
    by simp
  have o: "unat (n_vars 3) = 22" "unat (n_constraints 3) = 18" "unat (a_start 3) = 20"
    "unat (delta_start 3) = 18" "unat (cte_start 3) = 12" "unat (v_start 3) = 9"
    "unat (y_start 3) = 3"
    by (simp_all add: n_vars_def n_constraints_def a_start_def delta_start_def x_start_def
        y_start_def psi_start_def v_start_def cte_start_def epsi_start_def)
  have l: "[1..<3 :: nat] = [1, 2]"
    by code_simp
  note c = C7_layout [OF h, of real "[0, 0, 0, 0]"]
  note t = c [THEN conjunct2, THEN conjunct2, THEN conjunct2, THEN conjunct2, THEN conjunct2,
      THEN conjunct2, THEN conjunct2, THEN conjunct2, THEN conjunct2, THEN conjunct2,
      THEN conjunct2]
  note prob = t [THEN conjunct1]
  note states = t [THEN conjunct2, THEN conjunct1, rule_format]
  note acts = t [THEN conjunct2, THEN conjunct2, THEN conjunct1, rule_format]
  note ev = t [THEN conjunct2, THEN conjunct2, THEN conjunct2, THEN conjunct1, rule_format]
  note ex = t [THEN conjunct2, THEN conjunct2, THEN conjunct2, THEN conjunct2, rule_format]
  have lv: "length ?v = unat (n_vars 3)"
    by (simp add: o)
  have s: "rd vars_vec ?v (v_start 3 + 2) = Inr 11"
    using states [of ?v 2] lv by (simp add: v_at_def)
  have a: "rd vars_vec ?v (a_start 3 + 1) = Inr 21"
    using acts [of ?v 1] lv by (simp add: a_at_def)
  have r: "extract_result 3 ?v = Inr [18, 20, 1, 4, 2, 5]"
    unfolding ex [OF lv] u l by (simp add: delta_at_def a_at_def x_at_def y_at_def)
  have "length ?v = unat (n_vars 3) \<and> length (replicate 19 (0 :: real)) = 1 + unat (n_constraints 3)
      \<and> 4 \<le> length [0, 0, 0, 0 :: real]"
    by (simp add: o)
  from ev [OF this] obtain fg' where f: "FG_eval 3 [0, 0, 0, 0] (replicate 19 0) ?v = Inr fg'"
    and fl: "length fg' = 1 + unat (n_constraints 3)"
    and fy: "fg' ! (1 + unat (y_start 3)) = y_at 3 ?v 0"
    and ft: "\<forall>t. 1 \<le> t \<and> t < unat (3 :: size_t) \<longrightarrow>
          fg' ! (1 + unat (x_start 3) + t) = x_at 3 ?v t - model_x 3 ?v t \<and>
          fg' ! (1 + unat (y_start 3) + t) = y_at 3 ?v t - model_y 3 ?v t \<and>
          fg' ! (1 + unat (psi_start 3) + t) = psi_at 3 ?v t - model_psi 3 ?v t \<and>
          fg' ! (1 + unat (v_start 3) + t) = v_at 3 ?v t - model_v 3 ?v t \<and>
          fg' ! (1 + unat (cte_start 3) + t)
            = cte_at 3 ?v t - model_cte 3 (take 4 [0, 0, 0, 0]) ?v t \<and>
          fg' ! (1 + unat (epsi_start 3) + t)
            = epsi_at 3 ?v t - model_epsi 3 (take 4 [0, 0, 0, 0]) ?v t"
    by (elim exE conjE)
  have "(1 :: nat) \<le> 1 \<and> 1 < unat (3 :: size_t)"
    by simp
  from ft [rule_format, OF this]
  have fv: "fg' ! (1 + unat (v_start 3) + 1) = v_at 3 ?v 1 - model_v 3 ?v 1"
    by (elim conjE)
  have e: "\<exists>fg'. FG_eval 3 [0, 0, 0, 0] (replicate 19 0) ?v = Inr fg'
      \<and> length fg' = 19 \<and> fg' ! (1 + unat (y_start 3)) = 3
      \<and> fg' ! (1 + unat (v_start 3) + 1) = - 1"
  proof (intro exI conjI)
    show "FG_eval 3 [0, 0, 0, 0] (replicate 19 0) ?v = Inr fg'"
      by (rule f)
    show "length fg' = 19"
      using fl by (simp add: o)
    show "fg' ! (1 + unat (y_start 3)) = 3"
      unfolding fy by (simp add: y_at_def)
    show "fg' ! (1 + unat (v_start 3) + 1) = - 1"
      unfolding fv by (simp add: v_at_def a_at_def model_v_def dt_def)
  qed
  from prob obtain p where p: "Solve_problem 3 real [1, 2, 3, 4, 5, 6] [0, 0, 0, 0] = Inr p"
    and pl: "length (nlp_xi p) = unat (n_vars 3)" "length (nlp_gl p) = unat (n_constraints 3)"
    and low: "\<forall>i<unat (delta_start 3). nlp_xl p ! i = - float_max \<and> nlp_xu p ! i = float_max"
    and act: "\<forall>t<unat (3 :: size_t) - 1.
        nlp_xl p ! (unat (delta_start 3) + t) = - max_radians \<and>
        nlp_xu p ! (unat (delta_start 3) + t) = max_radians \<and>
        nlp_xl p ! (unat (a_start 3) + t) = - 1 \<and> nlp_xu p ! (unat (a_start 3) + t) = 1"
    and pc: "nlp_gl p ! unat (cte_start 3) = [1, 2, 3, 4, 5, 6 :: real] ! 4"
    by (elim exE conjE)
  have q: "\<exists>p. Solve_problem 3 real [1, 2, 3, 4, 5, 6] [0, 0, 0, 0] = Inr p \<and>
      length (nlp_xi p) = 22 \<and> length (nlp_gl p) = 18 \<and>
      nlp_xl p ! 17 = - float_max \<and> nlp_xl p ! (unat (delta_start 3) + 1) = - max_radians \<and>
      nlp_xu p ! (unat (a_start 3) + 0) = 1 \<and> nlp_gl p ! unat (cte_start 3) = 5"
  proof (intro exI conjI)
    show "Solve_problem 3 real [1, 2, 3, 4, 5, 6] [0, 0, 0, 0] = Inr p"
      by (rule p)
    show "length (nlp_xi p) = 22" "length (nlp_gl p) = 18"
      using pl by (simp_all add: o)
    show "nlp_xl p ! 17 = - float_max"
      using low [rule_format, of 17] by (simp add: o)
    show "nlp_xl p ! (unat (delta_start 3) + 1) = - max_radians"
      using act [rule_format, of 1] by simp
    show "nlp_xu p ! (unat (a_start 3) + 0) = 1"
      using act [rule_format, of 0] by simp
    show "nlp_gl p ! unat (cte_start 3) = 5"
      unfolding pc by simp
  qed
  show ?thesis
    using o(1-3) s a e r q by (intro conjI)
qed

end
